theory Spec2Isabelle
  imports Main "HOL-Library.Word"
begin

unbundle bit_operations_syntax

section \<open>Processor state\<close>

text \<open>
  The emulator keeps one \<open>State\<close> value that every instruction mutates in place.
  Here each Go method on \<open>*State\<close> is a function from the state to the updated
  state. Go's \<open>byte\<close>/\<open>uint8\<close> is \<open>8 word\<close>, \<open>uint16\<close> is \<open>16 word\<close>,
  \<open>uint32\<close> is \<open>32 word\<close>; arithmetic on them wraps, as in Go. The memory array
  \<open>[0x10000]byte\<close> is indexed by \<open>uint16\<close> values only, so every index is in
  range and the array is a total function from \<open>16 word\<close>.
\<close>

type_synonym byte = "8 word"
type_synonym uint16 = "16 word"
type_synonym uint32 = "32 word"

definition ZERO :: uint16 where "ZERO = 0xFF"
definition SIGN :: uint16 where "SIGN = 0x80"
definition CARRY :: uint16 where "CARRY = 0xFF"
definition ROUND :: uint16 where "ROUND = 0xFF"

text \<open>The fields of \<open>Conditions\<close> in their declaration order.\<close>

record Conditions =
  cy :: bool
  pad1 :: bool
  p :: bool
  pad2 :: bool
  ac :: bool
  pad3 :: bool
  z :: bool
  s :: bool

record State =
  a :: byte
  b :: byte
  c :: byte
  d :: byte
  e :: byte
  h :: byte
  l :: byte
  sp :: uint16
  pc :: uint16
  memory :: "uint16 \<Rightarrow> byte"
  cond :: Conditions
  enable :: byte

subsection \<open>Register pairs\<close>

definition getBC :: "State \<Rightarrow> uint16" where
  "getBC st = (push_bit 8 (ucast (b st))) OR ucast (c st)"

definition setBC :: "uint16 \<Rightarrow> State \<Rightarrow> State" where
  "setBC bc st =
     (let st1 = st\<lparr>b := ucast (drop_bit 8 (bc * 0xff00))\<rparr>
      in st1\<lparr>c := ucast (bc AND 0xff)\<rparr>)"

definition getDE :: "State \<Rightarrow> uint16" where
  "getDE st = (push_bit 8 (ucast (d st))) OR ucast (e st)"

definition setDE :: "uint16 \<Rightarrow> State \<Rightarrow> State" where
  "setDE de st =
     (let st1 = st\<lparr>e := ucast (drop_bit 8 (de * 0xff00))\<rparr>
      in st1\<lparr>d := ucast (de AND 0xff)\<rparr>)"

definition getHL :: "State \<Rightarrow> uint16" where
  "getHL st = (push_bit 8 (ucast (h st))) OR ucast (l st)"

definition setHL :: "uint16 \<Rightarrow> State \<Rightarrow> State" where
  "setHL hl st =
     (let st1 = st\<lparr>l := ucast (drop_bit 8 (hl * 0xff00))\<rparr>
      in st1\<lparr>h := ucast (hl AND 0xff)\<rparr>)"

definition getCarry :: "State \<Rightarrow> uint16" where
  "getCarry st = (if cy (cond st) then 1 else 0)"

definition setCarry :: "uint32 \<Rightarrow> State \<Rightarrow> State" where
  "setCarry result st = st\<lparr>cond := (cond st)\<lparr>cy := (result AND 0xffff0000 \<noteq> 0)\<rparr>\<rparr>"

definition getAddr :: "State \<Rightarrow> uint16" where
  "getAddr st =
     (push_bit 8 (ucast (memory st (pc st + 2)))) OR ucast (memory st (pc st + 1))"

subsection \<open>Flags\<close>

text \<open>
  The loop of \<open>parity\<close>: \<open>n\<close> iterations are left, \<open>answer\<close> is shifted right once
  per iteration and \<open>cnt\<close> (the source's local \<open>p\<close>) counts the bits that were set.
\<close>

fun parity_loop :: "nat \<Rightarrow> byte \<Rightarrow> byte \<Rightarrow> byte" where
  "parity_loop 0 answer cnt = cnt"
| "parity_loop (Suc n) answer cnt =
     parity_loop n (drop_bit 1 answer) (if answer AND 0x1 > 0 then cnt + 1 else cnt)"

definition parity :: "byte \<Rightarrow> State \<Rightarrow> State" where
  "parity answer st =
     (let answer1 = answer AND 0xff;
          cnt = parity_loop 8 answer1 0
      in st\<lparr>cond := (cond st)\<lparr>p := (cnt AND 0x1 = 0)\<rparr>\<rparr>)"

definition doArithFlags :: "uint16 \<Rightarrow> State \<Rightarrow> State" where
  "doArithFlags answer st =
     (let st1 = st\<lparr>cond := (cond st)\<lparr>z := (answer AND ZERO = 0)\<rparr>\<rparr>;
          st2 = st1\<lparr>cond := (cond st1)\<lparr>s := (answer AND SIGN \<noteq> 0)\<rparr>\<rparr>;
          st3 = st2\<lparr>cond := (cond st2)\<lparr>cy := (answer > CARRY)\<rparr>\<rparr>
      in parity (ucast answer) st3)"

definition doLogicFlags :: "State \<Rightarrow> State" where
  "doLogicFlags st =
     (let st1 = st\<lparr>cond := (cond st)\<lparr>z := (a st = 0)\<rparr>\<rparr>;
          st2 = st1\<lparr>cond := (cond st1)\<lparr>s := (a st1 AND ucast SIGN \<noteq> 0)\<rparr>\<rparr>;
          st3 = st2\<lparr>cond := (cond st2)\<lparr>cy := (\<not> ac (cond st2))\<rparr>\<rparr>
      in parity (a st3) st3)"

definition doZSPFlags :: "byte \<Rightarrow> State \<Rightarrow> State" where
  "doZSPFlags result st =
     (let st1 = st\<lparr>cond := (cond st)\<lparr>z := (result = 0)\<rparr>\<rparr>;
          st2 = st1\<lparr>cond := (cond st1)\<lparr>s := (result AND ucast SIGN \<noteq> 0)\<rparr>\<rparr>
      in parity result st2)"

subsection \<open>Stack\<close>

definition push :: "byte \<Rightarrow> byte \<Rightarrow> State \<Rightarrow> State" where
  "push high low st =
     (let st1 = st\<lparr>memory := (memory st)(sp st - 1 := high)\<rparr>;
          st2 = st1\<lparr>memory := (memory st1)(sp st1 - 2 := low)\<rparr>
      in st2\<lparr>sp := sp st2 - 2\<rparr>)"

text \<open>\<open>pop\<close> returns \<open>(high, low)\<close> and the state with the stack pointer moved.\<close>

definition pop :: "State \<Rightarrow> (byte \<times> byte) \<times> State" where
  "pop st =
     (let low = memory st (sp st);
          high = memory st (sp st + 1)
      in ((high, low), st\<lparr>sp := sp st + 2\<rparr>))"

section \<open>Execution engine\<close>

subsection \<open>What the process prints, and how it ends\<close>

text \<open>
  \<open>fmt.Printf\<close> appends to standard output, so a function that prints returns the
  text beside its result. \<open>%06d\<close> of a \<open>uint16\<close> is its decimal digits padded with
  zeros to six characters: a \<open>uint16\<close> has at most five digits, so the text always
  has exactly six. \<open>%02x\<close> of a byte is its two lower-case hexadecimal digits.
\<close>

definition digit_char :: "nat \<Rightarrow> char" where
  "digit_char k = ''0123456789abcdef'' ! k"

definition fmt_06d :: "uint16 \<Rightarrow> string" where
  "fmt_06d w = map (\<lambda>k. digit_char (unat w div 10 ^ k mod 10)) [5, 4, 3, 2, 1, 0]"

definition fmt_02x :: "byte \<Rightarrow> string" where
  "fmt_02x w = [digit_char (unat w div 16), digit_char (unat w mod 16)]"

definition newline :: char where
  "newline = CHR 0x0A"

text \<open>
  One call of \<open>Emulate\<close> either returns, and the driver loop calls it again on the
  updated state, or ends the process through \<open>os.Exit\<close>. \<open>Exited n st\<close> records
  the exit status and the state the processor was in when the process ended.
\<close>

datatype outcome = Running State | Exited nat State

definition running :: "State \<Rightarrow> string \<times> outcome" where
  "running st = ([], Running st)"

definition os_Exit :: "nat \<Rightarrow> State \<Rightarrow> string \<times> outcome" where
  "os_Exit code st = ([], Exited code st)"

definition unimplemented :: "State \<Rightarrow> string \<times> outcome" where
  "unimplemented st =
     (let opcode = memory st (pc st);
          (out, r) = os_Exit 1 st
      in (''Unimplemented: 0x'' @ fmt_02x opcode @ [newline] @ out, r))"

subsection \<open>The packed flag byte\<close>

text \<open>
  \<open>PUSH PSW\<close> walks the fields of \<open>Conditions\<close> by reflection, in declaration
  order, with a mask that starts at bit 0 and moves one bit left per field.
\<close>

definition cond_fields :: "Conditions \<Rightarrow> bool list" where
  "cond_fields cnd = [cy cnd, pad1 cnd, p cnd, pad2 cnd, ac cnd, pad3 cnd, z cnd, s cnd]"

fun psw_loop :: "bool list \<Rightarrow> byte \<Rightarrow> byte \<Rightarrow> byte" where
  "psw_loop [] psw flag = psw"
| "psw_loop (f # fs) psw flag =
     psw_loop fs (if f then psw OR flag else psw) (push_bit 1 flag)"

subsection \<open>One instruction\<close>

text \<open>
  \<open>Emulate\<close> prints the trace line, runs the \<open>switch\<close> on the opcode, and then
  (unless the process has exited) adds 1 to the program counter, whatever the case did.
  The cases are in the order of the source, each under its own comment.
\<close>

definition Emulate :: "State \<Rightarrow> string \<times> outcome" where
  "Emulate st =
    (let opcode = memory st (pc st);
         line = fmt_06d (pc st) @ '': 0x'' @ fmt_02x opcode @ [newline];
         (out, r) =
          (if opcode = 0x00 then \<comment> \<open>NOP\<close>
             running st
           else if opcode = 0x01 then \<comment> \<open>LXI B,word\<close>
             running (let st1 = st\<lparr>pc := pc st + 1\<rparr>;
                          st2 = st1\<lparr>c := memory st1 (pc st1)\<rparr>;
                          st3 = st2\<lparr>pc := pc st2 + 1\<rparr>
                      in st3\<lparr>b := memory st3 (pc st3)\<rparr>)
           else if opcode = 0x02 then \<comment> \<open>STAX B\<close>
             running (st\<lparr>memory := (memory st)(getBC st := a st)\<rparr>)
           else if opcode = 0x03 then \<comment> \<open>INX B\<close>
             running (let st1 = st\<lparr>c := c st + 1\<rparr>
                      in if c st1 = 0 then st1\<lparr>b := b st1 + 1\<rparr> else st1)
           else if opcode = 0x04 then \<comment> \<open>INR B\<close>
             running (let st1 = st\<lparr>b := b st + 1\<rparr>
                      in doZSPFlags (b st1) st1)
           else if opcode = 0x05 then \<comment> \<open>DCR B\<close>
             running (let st1 = st\<lparr>b := b st - 1\<rparr>
                      in doZSPFlags (b st1) st1)
           else if opcode = 0x06 then \<comment> \<open>MVI B, D8\<close>
             running (let st1 = st\<lparr>pc := pc st + 1\<rparr>
                      in st1\<lparr>b := memory st1 (pc st1)\<rparr>)
           else if opcode = 0x07 then \<comment> \<open>RLC\<close>
             running (let bit7 = a st AND 0x80;
                          st1 = st\<lparr>a := push_bit 1 (a st) OR drop_bit 7 bit7\<rparr>
                      in st1\<lparr>cond := (cond st1)\<lparr>cy := (bit7 = 0x80)\<rparr>\<rparr>)
           else if opcode = 0x08 then \<comment> \<open>Unimplemented\<close>
             unimplemented st
           else if opcode = 0x09 then \<comment> \<open>DAD B\<close>
             running (let result = (ucast (getHL st) :: uint32) + ucast (getBC st);
                          st1 = st\<lparr>h := ucast (drop_bit 8 (result * 0xff00))\<rparr>;
                          st2 = st1\<lparr>l := ucast (result AND 0xff)\<rparr>
                      in setCarry result st2)
           else if opcode = 0x0a then \<comment> \<open>LDAX B\<close>
             running (st\<lparr>a := memory st (getBC st)\<rparr>)
           else if opcode = 0x0b then \<comment> \<open>DCX B\<close>
             running (setBC (getBC st - 1) st)
           else if opcode = 0x0c then \<comment> \<open>INR C\<close>
             running (let st1 = st\<lparr>c := c st + 1\<rparr>
                      in doZSPFlags (c st1) st1)
           else if opcode = 0x0d then \<comment> \<open>DCR C\<close>
             running (let st1 = st\<lparr>c := c st - 1\<rparr>
                      in doZSPFlags (c st1) st1)
           else if opcode = 0x0e then \<comment> \<open>MVI C, D8\<close>
             running (let st1 = st\<lparr>pc := pc st + 1\<rparr>
                      in st1\<lparr>c := memory st1 (pc st1)\<rparr>)
           else if opcode = 0x0f then \<comment> \<open>RRC\<close>
             running (let bit0 = a st AND 0x01;
                          st1 = st\<lparr>a := drop_bit 1 (a st) OR push_bit 7 bit0\<rparr>
                      in st1\<lparr>cond := (cond st1)\<lparr>cy := (bit0 = 0x01)\<rparr>\<rparr>)
           else if opcode = 0x10 then \<comment> \<open>Unimplemented\<close>
             unimplemented st
           else if opcode = 0x11 then \<comment> \<open>LXI D, word\<close>
             running (let st1 = st\<lparr>pc := pc st + 1\<rparr>;
                          st2 = st1\<lparr>e := memory st1 (pc st1)\<rparr>;
                          st3 = st2\<lparr>pc := pc st2 + 1\<rparr>
                      in st3\<lparr>d := memory st3 (pc st3)\<rparr>)
           else if opcode = 0x12 then \<comment> \<open>STAX D\<close>
             running (st\<lparr>memory := (memory st)(getDE st := a st)\<rparr>)
           else if opcode = 0x13 then \<comment> \<open>INX D\<close>
             running (st\<lparr>memory := (memory st)(getDE st := a st)\<rparr>)
           else if opcode = 0x14 then \<comment> \<open>INR D\<close>
             running (let st1 = st\<lparr>d := d st + 1\<rparr>
                      in doZSPFlags (d st1) st1)
           else if opcode = 0x15 then \<comment> \<open>DCR D\<close>
             running (let st1 = st\<lparr>d := d st - 1\<rparr>
                      in doZSPFlags (d st1) st1)
           else if opcode = 0x16 then \<comment> \<open>MVI D, D8\<close>
             running (let st1 = st\<lparr>pc := pc st + 1\<rparr>
                      in st1\<lparr>d := memory st1 (pc st1)\<rparr>)
           else if opcode = 0x17 then \<comment> \<open>RAL\<close>
             running (let bit7 = a st AND 0x80;
                          st1 = (if cy (cond st) then st\<lparr>a := a st OR 0x01\<rparr> else st)
                      in st1\<lparr>cond := (cond st1)\<lparr>cy := (bit7 = 0x80)\<rparr>\<rparr>)
           else if opcode = 0x18 then \<comment> \<open>Unimplemented\<close>
             unimplemented st
           else if opcode = 0x19 then \<comment> \<open>DAD D\<close>
             running (let result = (ucast (getHL st) :: uint32) + ucast (getDE st);
                          st1 = st\<lparr>h := ucast (drop_bit 8 (result * 0xff00))\<rparr>;
                          st2 = st1\<lparr>l := ucast (result AND 0xff)\<rparr>
                      in setCarry result st2)
           else if opcode = 0x1a then \<comment> \<open>LDAX D\<close>
             running (st\<lparr>a := memory st (getDE st)\<rparr>)
           else if opcode = 0x1b then \<comment> \<open>DCX D\<close>
             running (setDE (getDE st - 1) st)
           else if opcode = 0x1c then \<comment> \<open>INR E\<close>
             running (let st1 = st\<lparr>e := e st + 1\<rparr>
                      in doZSPFlags (e st1) st1)
           else if opcode = 0x1d then \<comment> \<open>DCR E\<close>
             running (let st1 = st\<lparr>e := e st - 1\<rparr>
                      in doZSPFlags (e st1) st1)
           else if opcode = 0x1e then \<comment> \<open>MVI E,D8\<close>
             running (let st1 = st\<lparr>pc := pc st + 1\<rparr>
                      in st1\<lparr>e := memory st1 (pc st1)\<rparr>)
           else if opcode = 0x1f then \<comment> \<open>RAR\<close>
             running (let st1 = st\<lparr>cond := (cond st)\<lparr>cy := (a st AND 0x01 = 0x01)\<rparr>\<rparr>;
                          bit7 = a st1 AND 0x80
                      in st1\<lparr>a := drop_bit 1 (a st1) OR bit7\<rparr>)
           else if opcode = 0x20 then \<comment> \<open>RIM\<close>
             unimplemented st
           else if opcode = 0x21 then \<comment> \<open>LXI H, D16\<close>
             running (let st1 = st\<lparr>pc := pc st + 1\<rparr>;
                          st2 = st1\<lparr>l := memory st1 (pc st1)\<rparr>;
                          st3 = st2\<lparr>pc := pc st2 + 1\<rparr>
                      in st3\<lparr>h := memory st3 (pc st3)\<rparr>)
           else if opcode = 0x22 then \<comment> \<open>SHLD adr\<close>
             running (let adr = getAddr st;
                          st1 = st\<lparr>pc := pc st + 2\<rparr>;
                          st2 = st1\<lparr>memory := (memory st1)(adr := l st1)\<rparr>
                      in st2\<lparr>memory := (memory st2)(adr + 1 := h st2)\<rparr>)
           else if opcode = 0x23 then \<comment> \<open>INX H\<close>
             running (setHL (getHL st + 1) st)
           else if opcode = 0x24 then \<comment> \<open>INR H\<close>
             running (let st1 = st\<lparr>h := h st + 1\<rparr>
                      in doZSPFlags (h st1) st1)
           else if opcode = 0x25 then \<comment> \<open>DCR H\<close>
             running (let st1 = st\<lparr>h := h st - 1\<rparr>
                      in doZSPFlags (h st1) st1)
           else if opcode = 0x26 then \<comment> \<open>MVI H,D8\<close>
             running (let st1 = st\<lparr>pc := pc st + 1\<rparr>
                      in st1\<lparr>h := memory st1 (pc st1)\<rparr>)
           else if opcode = 0x27 then \<comment> \<open>DAA\<close>
             unimplemented st
           else if opcode = 0x28 then \<comment> \<open>Unimplemented\<close>
             unimplemented st
           else if opcode = 0x29 then \<comment> \<open>DAD H\<close>
             running (let result = 2 * (ucast (getHL st) :: uint32);
                          st1 = setHL (ucast result) st
                      in setCarry result st1)
           else if opcode = 0x2a then \<comment> \<open>LHLD adr\<close>
             running (let adr = getAddr st;
                          st1 = st\<lparr>pc := pc st + 2\<rparr>;
                          st2 = st1\<lparr>l := memory st1 (adr)\<rparr>
                      in st2\<lparr>h := memory st2 (adr + 1)\<rparr>)
           else if opcode = 0x2b then \<comment> \<open>DCX H\<close>
             running (setHL (getHL st - 1) st)
           else if opcode = 0x2c then \<comment> \<open>INR L\<close>
             running (let st1 = st\<lparr>l := l st + 1\<rparr>
                      in doZSPFlags (l st1) st1)
           else if opcode = 0x2d then \<comment> \<open>DCR L\<close>
             running (let st1 = st\<lparr>l := l st - 1\<rparr>
                      in doZSPFlags (l st1) st1)
           else if opcode = 0x2f then \<comment> \<open>CMA\<close>
             running (st\<lparr>a := NOT (a st)\<rparr>)
           else if opcode = 0x30 then \<comment> \<open>SIM\<close>
             unimplemented st
           else if opcode = 0x31 then \<comment> \<open>LXI SP,D16\<close>
             running (let st1 = st\<lparr>sp := getAddr st\<rparr>
                      in st1\<lparr>pc := pc st1 + 2\<rparr>)
           else if opcode = 0x32 then \<comment> \<open>STA adr\<close>
             running (let st1 = st\<lparr>memory := (memory st)(getAddr st := a st)\<rparr>
                      in st1\<lparr>pc := pc st1 + 1\<rparr>)
           else if opcode = 0x33 then \<comment> \<open>INX SP\<close>
             running (st\<lparr>sp := sp st + 1\<rparr>)
           else if opcode = 0x34 then \<comment> \<open>INR M\<close>
             running (let hl = getHL st;
                          st1 = st\<lparr>memory := (memory st)(hl := memory st hl + 1)\<rparr>
                      in doZSPFlags (memory st1 (hl)) st1)
           else if opcode = 0x35 then \<comment> \<open>DCR M\<close>
             running (let hl = getHL st;
                          st1 = st\<lparr>memory := (memory st)(hl := memory st hl - 1)\<rparr>
                      in doZSPFlags (memory st1 (hl)) st1)
           else if opcode = 0x36 then \<comment> \<open>MVI M,D8\<close>
             running (let st1 = st\<lparr>pc := pc st + 1\<rparr>
                      in st1\<lparr>memory := (memory st1)(getHL st1 := memory st1 (pc st1))\<rparr>)
           else if opcode = 0x37 then \<comment> \<open>STC\<close>
             running (st\<lparr>cond := (cond st)\<lparr>cy := True\<rparr>\<rparr>)
           else if opcode = 0x38 then \<comment> \<open>Unimplemented\<close>
             unimplemented st
           else if opcode = 0x39 then \<comment> \<open>DAD SP\<close>
             running (let result = (ucast (getHL st) :: uint32) + ucast (sp st);
                          st1 = setHL (ucast result) st
                      in setCarry result st1)
           else if opcode = 0x3a then \<comment> \<open>LDA adr\<close>
             running (let st1 = st\<lparr>a := memory st (getAddr st)\<rparr>
                      in st1\<lparr>pc := pc st1 + 2\<rparr>)
           else if opcode = 0x3b then \<comment> \<open>DCX SP\<close>
             running (st\<lparr>sp := sp st - 1\<rparr>)
           else if opcode = 0x3c then \<comment> \<open>INR A\<close>
             running (let st1 = st\<lparr>a := a st + 1\<rparr>
                      in doZSPFlags (a st1) st1)
           else if opcode = 0x3d then \<comment> \<open>DCR A\<close>
             running (let st1 = st\<lparr>a := a st - 1\<rparr>
                      in doZSPFlags (a st1) st1)
           else if opcode = 0x3f then \<comment> \<open>CMC\<close>
             running (st\<lparr>cond := (cond st)\<lparr>cy := (\<not> cy (cond st))\<rparr>\<rparr>)
           else if opcode = 0x40 then \<comment> \<open>MOV B,b\<close>
             running (st\<lparr>b := b st\<rparr>)
           else if opcode = 0x41 then \<comment> \<open>MOV B,C\<close>
             running (st\<lparr>b := c st\<rparr>)
           else if opcode = 0x42 then \<comment> \<open>MOV B,D\<close>
             running (st\<lparr>b := d st\<rparr>)
           else if opcode = 0x43 then \<comment> \<open>MOV B,E\<close>
             running (st\<lparr>b := e st\<rparr>)
           else if opcode = 0x44 then \<comment> \<open>MOV B,H\<close>
             running (st\<lparr>b := h st\<rparr>)
           else if opcode = 0x45 then \<comment> \<open>MOV B,L\<close>
             running (st\<lparr>b := l st\<rparr>)
           else if opcode = 0x46 then \<comment> \<open>MOV B,M\<close>
             running (st\<lparr>b := memory st (getAddr st)\<rparr>)
           else if opcode = 0x47 then \<comment> \<open>MOV B,A\<close>
             running (st\<lparr>b := a st\<rparr>)
           else if opcode = 0x48 then \<comment> \<open>MOV C,B\<close>
             running (st\<lparr>c := b st\<rparr>)
           else if opcode = 0x49 then \<comment> \<open>MOV C,C\<close>
             running (st\<lparr>c := c st\<rparr>)
           else if opcode = 0x4a then \<comment> \<open>MOV C,D\<close>
             running (st\<lparr>c := d st\<rparr>)
           else if opcode = 0x4b then \<comment> \<open>MOV C,E\<close>
             running (st\<lparr>c := e st\<rparr>)
           else if opcode = 0x4c then \<comment> \<open>MOV C,H\<close>
             running (st\<lparr>c := h st\<rparr>)
           else if opcode = 0x4d then \<comment> \<open>MOV C,L\<close>
             running (st\<lparr>c := l st\<rparr>)
           else if opcode = 0x4e then \<comment> \<open>MOV C,M\<close>
             running (st\<lparr>c := memory st (getAddr st)\<rparr>)
           else if opcode = 0x4f then \<comment> \<open>MOV C,A\<close>
             running (st\<lparr>c := a st\<rparr>)
           else if opcode = 0x50 then \<comment> \<open>MOV D,B\<close>
             running (st\<lparr>d := b st\<rparr>)
           else if opcode = 0x51 then \<comment> \<open>MOV D,C\<close>
             running (st\<lparr>d := c st\<rparr>)
           else if opcode = 0x52 then \<comment> \<open>MOV D,D\<close>
             running (st\<lparr>d := d st\<rparr>)
           else if opcode = 0x53 then \<comment> \<open>MOV D,E\<close>
             running (st\<lparr>d := e st\<rparr>)
           else if opcode = 0x54 then \<comment> \<open>MOV D,H\<close>
             running (st\<lparr>d := h st\<rparr>)
           else if opcode = 0x55 then \<comment> \<open>MOV D,L\<close>
             running (st\<lparr>d := l st\<rparr>)
           else if opcode = 0x56 then \<comment> \<open>MOV D,M\<close>
             running (st\<lparr>d := memory st (getAddr st)\<rparr>)
           else if opcode = 0x57 then \<comment> \<open>MOV D,A\<close>
             running (st\<lparr>d := a st\<rparr>)
           else if opcode = 0x58 then \<comment> \<open>MOV E,B\<close>
             running (st\<lparr>e := b st\<rparr>)
           else if opcode = 0x59 then \<comment> \<open>MOV E,C\<close>
             running (st\<lparr>e := c st\<rparr>)
           else if opcode = 0x5a then \<comment> \<open>MOV E,D\<close>
             running (st\<lparr>e := d st\<rparr>)
           else if opcode = 0x5b then \<comment> \<open>MOV E,E\<close>
             running (st\<lparr>e := e st\<rparr>)
           else if opcode = 0x5c then \<comment> \<open>MOV E,H\<close>
             running (st\<lparr>e := h st\<rparr>)
           else if opcode = 0x5d then \<comment> \<open>MOV E,L\<close>
             running (st\<lparr>e := l st\<rparr>)
           else if opcode = 0x5e then \<comment> \<open>MOV E,M\<close>
             running (st\<lparr>e := memory st (getAddr st)\<rparr>)
           else if opcode = 0x5f then \<comment> \<open>MOV E,A\<close>
             running (st\<lparr>e := a st\<rparr>)
           else if opcode = 0x60 then \<comment> \<open>MOV H,B\<close>
             running (st\<lparr>h := b st\<rparr>)
           else if opcode = 0x61 then \<comment> \<open>MOV H,C\<close>
             running (st\<lparr>h := c st\<rparr>)
           else if opcode = 0x62 then \<comment> \<open>MOV H,D\<close>
             running (st\<lparr>h := d st\<rparr>)
           else if opcode = 0x63 then \<comment> \<open>MOV H,E\<close>
             running (st\<lparr>h := e st\<rparr>)
           else if opcode = 0x64 then \<comment> \<open>MOV H,H\<close>
             running (st\<lparr>h := h st\<rparr>)
           else if opcode = 0x65 then \<comment> \<open>MOV H,L\<close>
             running (st\<lparr>h := l st\<rparr>)
           else if opcode = 0x66 then \<comment> \<open>MOV H,M\<close>
             running (st\<lparr>h := memory st (getAddr st)\<rparr>)
           else if opcode = 0x67 then \<comment> \<open>MOV H,A\<close>
             running (st\<lparr>h := a st\<rparr>)
           else if opcode = 0x68 then \<comment> \<open>MOV L,B\<close>
             running (st\<lparr>l := b st\<rparr>)
           else if opcode = 0x69 then \<comment> \<open>MOV L,C\<close>
             running (st\<lparr>l := c st\<rparr>)
           else if opcode = 0x6a then \<comment> \<open>MOV L,D\<close>
             running (st\<lparr>l := d st\<rparr>)
           else if opcode = 0x6b then \<comment> \<open>MOV L,E\<close>
             running (st\<lparr>l := e st\<rparr>)
           else if opcode = 0x6c then \<comment> \<open>MOV L,H\<close>
             running (st\<lparr>l := h st\<rparr>)
           else if opcode = 0x6d then \<comment> \<open>MOV L,L\<close>
             running (st\<lparr>l := l st\<rparr>)
           else if opcode = 0x6e then \<comment> \<open>MOV L,M\<close>
             running (st\<lparr>l := memory st (getAddr st)\<rparr>)
           else if opcode = 0x6f then \<comment> \<open>MOV L,A\<close>
             running (st\<lparr>l := a st\<rparr>)
           else if opcode = 0x70 then \<comment> \<open>MOV M,B\<close>
             running (st\<lparr>memory := (memory st)(getAddr st := b st)\<rparr>)
           else if opcode = 0x71 then \<comment> \<open>MOV M,C\<close>
             running (st\<lparr>memory := (memory st)(getAddr st := c st)\<rparr>)
           else if opcode = 0x72 then \<comment> \<open>MOV M,D\<close>
             running (st\<lparr>memory := (memory st)(getAddr st := d st)\<rparr>)
           else if opcode = 0x73 then \<comment> \<open>MOV M,E\<close>
             running (st\<lparr>memory := (memory st)(getAddr st := e st)\<rparr>)
           else if opcode = 0x74 then \<comment> \<open>MOV M,H\<close>
             running (st\<lparr>memory := (memory st)(getAddr st := h st)\<rparr>)
           else if opcode = 0x75 then \<comment> \<open>MOV M,L\<close>
             running (st\<lparr>memory := (memory st)(getAddr st := l st)\<rparr>)
           else if opcode = 0x76 then \<comment> \<open>HALT\<close>
             os_Exit 0 st
           else if opcode = 0x77 then \<comment> \<open>MOV M,A\<close>
             running (st\<lparr>memory := (memory st)(getAddr st := a st)\<rparr>)
           else if opcode = 0x78 then \<comment> \<open>MOV A,B\<close>
             running (st\<lparr>a := b st\<rparr>)
           else if opcode = 0x79 then \<comment> \<open>MOV A,C\<close>
             running (st\<lparr>a := c st\<rparr>)
           else if opcode = 0x7a then \<comment> \<open>MOV A,D\<close>
             running (st\<lparr>a := d st\<rparr>)
           else if opcode = 0x7b then \<comment> \<open>MOV A,E\<close>
             running (st\<lparr>a := e st\<rparr>)
           else if opcode = 0x7c then \<comment> \<open>MOV A,H\<close>
             running (st\<lparr>a := h st\<rparr>)
           else if opcode = 0x7d then \<comment> \<open>MOV A,L\<close>
             running (st\<lparr>a := l st\<rparr>)
           else if opcode = 0x7e then \<comment> \<open>MOV A,M\<close>
             running (st\<lparr>a := memory st (getAddr st)\<rparr>)
           else if opcode = 0x7f then \<comment> \<open>MOV A,A\<close>
             running (st\<lparr>a := a st\<rparr>)
           else if opcode = 0x80 then \<comment> \<open>ADD B\<close>
             running (let answer = ucast (a st) + ucast (b st);
                          st1 = doArithFlags answer st
                      in st1\<lparr>a := ucast (answer AND ROUND)\<rparr>)
           else if opcode = 0x81 then \<comment> \<open>ADD C\<close>
             running (let answer = ucast (a st) + ucast (c st);
                          st1 = doArithFlags answer st
                      in st1\<lparr>a := ucast (answer AND ROUND)\<rparr>)
           else if opcode = 0x82 then \<comment> \<open>ADD D\<close>
             running (let answer = ucast (a st) + ucast (d st);
                          st1 = doArithFlags answer st
                      in st1\<lparr>a := ucast (answer AND ROUND)\<rparr>)
           else if opcode = 0x83 then \<comment> \<open>ADD E\<close>
             running (let answer = ucast (a st) + ucast (e st);
                          st1 = doArithFlags answer st
                      in st1\<lparr>a := ucast (answer AND ROUND)\<rparr>)
           else if opcode = 0x84 then \<comment> \<open>ADD H\<close>
             running (let answer = ucast (a st) + ucast (h st);
                          st1 = doArithFlags answer st
                      in st1\<lparr>a := ucast (answer AND ROUND)\<rparr>)
           else if opcode = 0x85 then \<comment> \<open>ADD L\<close>
             running (let answer = ucast (a st) + ucast (l st);
                          st1 = doArithFlags answer st
                      in st1\<lparr>a := ucast (answer AND ROUND)\<rparr>)
           else if opcode = 0x86 then \<comment> \<open>ADD M\<close>
             running (let answer = ucast (a st) + ucast (memory st (getHL st));
                          st1 = doArithFlags answer st
                      in st1\<lparr>a := ucast (answer AND ROUND)\<rparr>)
           else if opcode = 0x87 then \<comment> \<open>ADD A\<close>
             running (let answer = ucast (a st) + ucast (a st);
                          st1 = doArithFlags answer st
                      in st1\<lparr>a := ucast (answer AND ROUND)\<rparr>)
           else if opcode = 0x88 then \<comment> \<open>ADC B\<close>
             running (let answer = ucast (a st) + ucast (b st) + getCarry st;
                          st1 = doArithFlags answer st
                      in st1\<lparr>a := ucast (answer AND ROUND)\<rparr>)
           else if opcode = 0x89 then \<comment> \<open>ADC C\<close>
             running (let answer = ucast (a st) + ucast (c st) + getCarry st;
                          st1 = doArithFlags answer st
                      in st1\<lparr>a := ucast (answer AND ROUND)\<rparr>)
           else if opcode = 0x8a then \<comment> \<open>ADC D\<close>
             running (let answer = ucast (a st) + ucast (d st) + getCarry st;
                          st1 = doArithFlags answer st
                      in st1\<lparr>a := ucast (answer AND ROUND)\<rparr>)
           else if opcode = 0x8b then \<comment> \<open>ADC E\<close>
             running (let answer = ucast (a st) + ucast (e st) + getCarry st;
                          st1 = doArithFlags answer st
                      in st1\<lparr>a := ucast (answer AND ROUND)\<rparr>)
           else if opcode = 0x8c then \<comment> \<open>ADC H\<close>
             running (let answer = ucast (a st) + ucast (h st) + getCarry st;
                          st1 = doArithFlags answer st
                      in st1\<lparr>a := ucast (answer AND ROUND)\<rparr>)
           else if opcode = 0x8d then \<comment> \<open>ADC L\<close>
             running (let answer = ucast (a st) + ucast (l st) + getCarry st;
                          st1 = doArithFlags answer st
                      in st1\<lparr>a := ucast (answer AND ROUND)\<rparr>)
           else if opcode = 0x8e then \<comment> \<open>ADC M\<close>
             running (let answer = ucast (a st) + ucast (memory st (getHL st)) + getCarry st;
                          st1 = doArithFlags answer st
                      in st1\<lparr>a := ucast (answer AND ROUND)\<rparr>)
           else if opcode = 0x8f then \<comment> \<open>ADC A\<close>
             running (let answer = ucast (a st) + ucast (d st) + getCarry st;
                          st1 = doArithFlags answer st
                      in st1\<lparr>a := ucast (answer AND ROUND)\<rparr>)
           else if opcode = 0x90 then \<comment> \<open>SUB B\<close>
             running (let answer = ucast (a st) - ucast (b st);
                          st1 = doArithFlags answer st
                      in st1\<lparr>a := ucast (answer AND ROUND)\<rparr>)
           else if opcode = 0x91 then \<comment> \<open>SUB C\<close>
             running (let answer = ucast (a st) - ucast (c st);
                          st1 = doArithFlags answer st
                      in st1\<lparr>a := ucast (answer AND ROUND)\<rparr>)
           else if opcode = 0x92 then \<comment> \<open>SUB D\<close>
             running (let answer = ucast (a st) - ucast (d st);
                          st1 = doArithFlags answer st
                      in st1\<lparr>a := ucast (answer AND ROUND)\<rparr>)
           else if opcode = 0x93 then \<comment> \<open>SUB E\<close>
             running (let answer = ucast (a st) - ucast (e st);
                          st1 = doArithFlags answer st
                      in st1\<lparr>a := ucast (answer AND ROUND)\<rparr>)
           else if opcode = 0x94 then \<comment> \<open>SUB H\<close>
             running (let answer = ucast (a st) - ucast (h st);
                          st1 = doArithFlags answer st
                      in st1\<lparr>a := ucast (answer AND ROUND)\<rparr>)
           else if opcode = 0x95 then \<comment> \<open>SUB L\<close>
             running (let answer = ucast (a st) - ucast (l st);
                          st1 = doArithFlags answer st
                      in st1\<lparr>a := ucast (answer AND ROUND)\<rparr>)
           else if opcode = 0x96 then \<comment> \<open>SUB M\<close>
             running (let answer = ucast (a st) - ucast (memory st (getHL st));
                          st1 = doArithFlags answer st
                      in st1\<lparr>a := ucast (answer AND ROUND)\<rparr>)
           else if opcode = 0x97 then \<comment> \<open>SUB A\<close>
             running (let answer = ucast (a st) - ucast (a st);
                          st1 = doArithFlags answer st
                      in st1\<lparr>a := ucast (answer AND ROUND)\<rparr>)
           else if opcode = 0x98 then \<comment> \<open>SBB B\<close>
             running (let answer = ucast (a st) - ucast (b st) - getCarry st;
                          st1 = doArithFlags answer st
                      in st1\<lparr>a := ucast (answer AND ROUND)\<rparr>)
           else if opcode = 0x99 then \<comment> \<open>SBB C\<close>
             running (let answer = ucast (a st) - ucast (c st) - getCarry st;
                          st1 = doArithFlags answer st
                      in st1\<lparr>a := ucast (answer AND ROUND)\<rparr>)
           else if opcode = 0x9a then \<comment> \<open>SBB D\<close>
             running (let answer = ucast (a st) - ucast (d st) - getCarry st;
                          st1 = doArithFlags answer st
                      in st1\<lparr>a := ucast (answer AND ROUND)\<rparr>)
           else if opcode = 0x9b then \<comment> \<open>SBB E\<close>
             running (let answer = ucast (a st) - ucast (e st) - getCarry st;
                          st1 = doArithFlags answer st
                      in st1\<lparr>a := ucast (answer AND ROUND)\<rparr>)
           else if opcode = 0x9c then \<comment> \<open>SBB H\<close>
             running (let answer = ucast (a st) - ucast (h st) - getCarry st;
                          st1 = doArithFlags answer st
                      in st1\<lparr>a := ucast (answer AND ROUND)\<rparr>)
           else if opcode = 0x9d then \<comment> \<open>SBB L\<close>
             running (let answer = ucast (a st) - ucast (l st) - getCarry st;
                          st1 = doArithFlags answer st
                      in st1\<lparr>a := ucast (answer AND ROUND)\<rparr>)
           else if opcode = 0x9e then \<comment> \<open>SBB M\<close>
             running (let answer = ucast (a st) - ucast (memory st (getHL st)) - getCarry st;
                          st1 = doArithFlags answer st
                      in st1\<lparr>a := ucast (answer AND ROUND)\<rparr>)
           else if opcode = 0x9f then \<comment> \<open>SBB A\<close>
             running (let answer = ucast (a st) - ucast (d st) - getCarry st;
                          st1 = doArithFlags answer st
                      in st1\<lparr>a := ucast (answer AND ROUND)\<rparr>)
           else if opcode = 0xa0 then \<comment> \<open>ANA B\<close>
             running (let st1 = st\<lparr>a := a st AND b st\<rparr>
                      in doLogicFlags st1)
           else if opcode = 0xa1 then \<comment> \<open>ANA c\<close>
             running (let st1 = st\<lparr>a := a st AND c st\<rparr>
                      in doLogicFlags st1)
           else if opcode = 0xa2 then \<comment> \<open>ANA D\<close>
             running (let st1 = st\<lparr>a := a st AND d st\<rparr>
                      in doLogicFlags st1)
           else if opcode = 0xa3 then \<comment> \<open>ANA E\<close>
             running (let st1 = st\<lparr>a := a st AND e st\<rparr>
                      in doLogicFlags st1)
           else if opcode = 0xa4 then \<comment> \<open>ANA H\<close>
             running (let st1 = st\<lparr>a := a st AND h st\<rparr>
                      in doLogicFlags st1)
           else if opcode = 0xa5 then \<comment> \<open>ANA L\<close>
             running (let st1 = st\<lparr>a := a st AND l st\<rparr>
                      in doLogicFlags st1)
           else if opcode = 0xa6 then \<comment> \<open>ANA M\<close>
             running (let st1 = st\<lparr>a := a st AND memory st (getCarry st)\<rparr>;
                          st2 = st1\<lparr>pc := pc st1 + 2\<rparr>
                      in doLogicFlags st2)
           else if opcode = 0xa7 then \<comment> \<open>ANA A\<close>
             running (let st1 = st\<lparr>a := a st AND a st\<rparr>
                      in doLogicFlags st1)
           else if opcode = 0xa8 then \<comment> \<open>XRA B\<close>
             running (let st1 = st\<lparr>a := a st XOR b st\<rparr>
                      in doLogicFlags st1)
           else if opcode = 0xa9 then \<comment> \<open>XRA C\<close>
             running (let st1 = st\<lparr>a := a st XOR c st\<rparr>
                      in doLogicFlags st1)
           else if opcode = 0xaa then \<comment> \<open>XRA D\<close>
             running (let st1 = st\<lparr>a := a st XOR d st\<rparr>
                      in doLogicFlags st1)
           else if opcode = 0xab then \<comment> \<open>XRA E\<close>
             running (let st1 = st\<lparr>a := a st XOR e st\<rparr>
                      in doLogicFlags st1)
           else if opcode = 0xac then \<comment> \<open>XRA H\<close>
             running (let st1 = st\<lparr>a := a st XOR h st\<rparr>
                      in doLogicFlags st1)
           else if opcode = 0xad then \<comment> \<open>XRA l\<close>
             running (let st1 = st\<lparr>a := a st XOR l st\<rparr>
                      in doLogicFlags st1)
           else if opcode = 0xae then \<comment> \<open>XRA M\<close>
             running (let st1 = st\<lparr>a := a st XOR memory st (getAddr st)\<rparr>;
                          st2 = st1\<lparr>pc := pc st1 + 2\<rparr>
                      in doLogicFlags st2)
           else if opcode = 0xaf then \<comment> \<open>XRA A\<close>
             running (let st1 = st\<lparr>a := a st XOR a st\<rparr>
                      in doLogicFlags st1)
           else if opcode = 0xb0 then \<comment> \<open>ORA B\<close>
             running (let st1 = st\<lparr>a := a st OR b st\<rparr>
                      in doLogicFlags st1)
           else if opcode = 0xb1 then \<comment> \<open>ORA C\<close>
             running (let st1 = st\<lparr>a := a st OR c st\<rparr>
                      in doLogicFlags st1)
           else if opcode = 0xb2 then \<comment> \<open>ORA D\<close>
             running (let st1 = st\<lparr>a := a st OR d st\<rparr>
                      in doLogicFlags st1)
           else if opcode = 0xb3 then \<comment> \<open>ORA E\<close>
             running (let st1 = st\<lparr>a := a st OR e st\<rparr>
                      in doLogicFlags st1)
           else if opcode = 0xb4 then \<comment> \<open>ORA H\<close>
             running (let st1 = st\<lparr>a := a st OR h st\<rparr>
                      in doLogicFlags st1)
           else if opcode = 0xb5 then \<comment> \<open>ORA L\<close>
             running (let st1 = st\<lparr>a := a st OR l st\<rparr>
                      in doLogicFlags st1)
           else if opcode = 0xb6 then \<comment> \<open>ORA M\<close>
             running (let st1 = st\<lparr>a := a st OR memory st (getAddr st)\<rparr>;
                          st2 = st1\<lparr>pc := pc st1 + 2\<rparr>
                      in doLogicFlags st2)
           else if opcode = 0xb7 then \<comment> \<open>ORA a\<close>
             running (let st1 = st\<lparr>a := a st OR a st\<rparr>
                      in doLogicFlags st1)
           else if opcode = 0xb8 then \<comment> \<open>CMP B\<close>
             running (doArithFlags (ucast (a st) - ucast (b st)) st)
           else if opcode = 0xb9 then \<comment> \<open>CMP C\<close>
             running (doArithFlags (ucast (a st) - ucast (c st)) st)
           else if opcode = 0xba then \<comment> \<open>CMP D\<close>
             running (doArithFlags (ucast (a st) - ucast (d st)) st)
           else if opcode = 0xbb then \<comment> \<open>CMP E\<close>
             running (doArithFlags (ucast (a st) - ucast (e st)) st)
           else if opcode = 0xbc then \<comment> \<open>CMP H\<close>
             running (doArithFlags (ucast (a st) - ucast (h st)) st)
           else if opcode = 0xbd then \<comment> \<open>CMP L\<close>
             running (doArithFlags (ucast (a st) - ucast (l st)) st)
           else if opcode = 0xbe then \<comment> \<open>CMP M\<close>
             running (let st1 = doArithFlags (ucast (a st) - ucast (memory st (getAddr st))) st
                      in st1\<lparr>pc := pc st1 + 2\<rparr>)
           else if opcode = 0xbf then \<comment> \<open>CMP A\<close>
             running (doArithFlags (ucast (a st) - ucast (a st)) st)
           else if opcode = 0xc1 then \<comment> \<open>POP B\<close>
             running (let ((high, low), st1) = pop st
                      in st1\<lparr>b := high, c := low\<rparr>)
           else if opcode = 0xc2 then \<comment> \<open>JNZ adr\<close>
             running (if \<not> z (cond st) then st\<lparr>pc := getAddr st\<rparr> else st\<lparr>pc := pc st + 2\<rparr>)
           else if opcode = 0xc3 then \<comment> \<open>JMP adr\<close>
             running (st\<lparr>pc := getAddr st\<rparr>)
           else if opcode = 0xc5 then \<comment> \<open>PUSH B\<close>
             running (push (b st) (c st) st)
           else if opcode = 0xc6 then
             running (let st1 = st\<lparr>pc := pc st + 1\<rparr>;
                          answer = ucast (a st1) + ucast (memory st1 (pc st1));
                          st2 = doArithFlags answer st1
                      in st2\<lparr>a := ucast (answer AND ROUND)\<rparr>)
           else if opcode = 0xca then \<comment> \<open>JZ adr\<close>
             running (if z (cond st) then st\<lparr>pc := getAddr st\<rparr> else st\<lparr>pc := pc st + 2\<rparr>)
           else if opcode = 0xd1 then \<comment> \<open>POP D\<close>
             running (let ((high, low), st1) = pop st
                      in st1\<lparr>d := high, e := low\<rparr>)
           else if opcode = 0xd2 then \<comment> \<open>JNC adr\<close>
             running (if \<not> cy (cond st) then st\<lparr>pc := getAddr st\<rparr> else st\<lparr>pc := pc st + 2\<rparr>)
           else if opcode = 0xd5 then \<comment> \<open>PUSH D\<close>
             running (push (d st) (e st) st)
           else if opcode = 0xda then \<comment> \<open>JC adr\<close>
             running (if cy (cond st) then st\<lparr>pc := getAddr st\<rparr> else st\<lparr>pc := pc st + 2\<rparr>)
           else if opcode = 0xe1 then \<comment> \<open>POP H\<close>
             running (let ((high, low), st1) = pop st
                      in st1\<lparr>h := high, l := low\<rparr>)
           else if opcode = 0xe2 then \<comment> \<open>JPO adr\<close>
             running (if \<not> p (cond st) then st\<lparr>pc := getAddr st\<rparr> else st\<lparr>pc := pc st + 1\<rparr>)
           else if opcode = 0xe5 then \<comment> \<open>PUSH H\<close>
             running (push (h st) (l st) st)
           else if opcode = 0xea then \<comment> \<open>JPE adr\<close>
             running (if p (cond st) then st\<lparr>pc := getAddr st\<rparr> else st\<lparr>pc := pc st + 2\<rparr>)
           else if opcode = 0xf1 then \<comment> \<open>POP PWS\<close>
             running (let ((high, low), st1) = pop st;
                          st2 = st1\<lparr>a := high\<rparr>;
                          st3 = st2\<lparr>cond := (cond st2)\<lparr>cy := (low AND 0x01 = 0x01)\<rparr>\<rparr>;
                          st4 = st3\<lparr>cond := (cond st3)\<lparr>pad1 := (low AND 0x02 = 0x02)\<rparr>\<rparr>;
                          st5 = st4\<lparr>cond := (cond st4)\<lparr>p := (low AND 0x04 = 0x04)\<rparr>\<rparr>;
                          st6 = st5\<lparr>cond := (cond st5)\<lparr>pad2 := (low AND 0x08 = 0x08)\<rparr>\<rparr>;
                          st7 = st6\<lparr>cond := (cond st6)\<lparr>ac := (low AND 0x10 = 0x10)\<rparr>\<rparr>;
                          st8 = st7\<lparr>cond := (cond st7)\<lparr>pad3 := (low AND 0x20 = 0x20)\<rparr>\<rparr>;
                          st9 = st8\<lparr>cond := (cond st8)\<lparr>z := (low AND 0x40 = 0x40)\<rparr>\<rparr>
                      in st9\<lparr>cond := (cond st9)\<lparr>s := (low AND 0x80 = 0x80)\<rparr>\<rparr>)
           else if opcode = 0xf2 then \<comment> \<open>JP adr\<close>
             running (if \<not> s (cond st) then st\<lparr>pc := getAddr st\<rparr> else st\<lparr>pc := pc st + 2\<rparr>)
           else if opcode = 0xf5 then \<comment> \<open>PUSH PSW\<close>
             running (let psw = psw_loop (cond_fields (cond st)) 0 0x01
                      in push (a st) psw st)
           else if opcode = 0xfa then \<comment> \<open>JM adr\<close>
             running (if s (cond st) then st\<lparr>pc := getAddr st\<rparr> else st\<lparr>pc := pc st + 2\<rparr>)
           else unimplemented st)
     in (line @ out,
         case r of
           Running st' \<Rightarrow> Running (st'\<lparr>pc := pc st' + 1\<rparr>)
         | Exited code st' \<Rightarrow> Exited code st'))"

subsection \<open>Startup and the driver loop\<close>

text \<open>
  \<open>new(State)\<close> is the zero value of every field; \<open>copy\<close> writes the image over
  the low addresses. \<open>main\<close> refuses an empty image before any instruction runs.
\<close>

definition new_State :: State where
  "new_State =
     \<lparr>a = 0, b = 0, c = 0, d = 0, e = 0, h = 0, l = 0, sp = 0, pc = 0,
      memory = (\<lambda>i. 0),
      cond = \<lparr>cy = False, pad1 = False, p = False, pad2 = False,
              ac = False, pad3 = False, z = False, s = False\<rparr>,
      enable = 0\<rparr>"

definition copy_image :: "byte list \<Rightarrow> (uint16 \<Rightarrow> byte) \<Rightarrow> (uint16 \<Rightarrow> byte)" where
  "copy_image img mem = (\<lambda>i. if unat i < length img then img ! unat i else mem i)"

definition boot :: "byte list \<Rightarrow> State" where
  "boot img = new_State\<lparr>memory := copy_image img (memory new_State)\<rparr>"

definition startup :: "byte list \<Rightarrow> State option" where
  "startup img = (if length img = 0 then None else Some (boot img))"

text \<open>
  The driver loop \<open>for { state.Emulate() }\<close> has no exit of its own, so it is run
  here for a given number of instructions: \<open>run n st\<close> stops early only when the
  process exits.
\<close>

fun run :: "nat \<Rightarrow> State \<Rightarrow> string \<times> outcome" where
  "run 0 st = ([], Running st)"
| "run (Suc n) st =
     (case Emulate st of
        (out, Running st') \<Rightarrow> (let (out', r) = run n st' in (out @ out', r))
      | (out, Exited code st') \<Rightarrow> (out, Exited code st'))"

definition state_of :: "outcome \<Rightarrow> State" where
  "state_of r = (case r of Running st \<Rightarrow> st | Exited code st \<Rightarrow> st)"

text \<open>
  The states the driver loop \<open>for { state.Emulate() }\<close> passes through when started
  on the image \<open>img\<close>.
\<close>

inductive reachable :: "byte list \<Rightarrow> State \<Rightarrow> bool" for img :: "byte list" where
  reachable_start: "startup img = Some st \<Longrightarrow> reachable img st"
| reachable_step: "reachable img st \<Longrightarrow> Emulate st = (out, Running st') \<Longrightarrow> reachable img st'"

subsection \<open>Opcodes with an instruction behind them\<close>

text \<open>
  The \<open>case\<close> labels of the \<open>switch\<close> whose body is an instruction, in source
  order. The labels whose body is only \<open>s.unimplemented()\<close> (0x08, 0x10, 0x18,
  0x20, 0x27, 0x28, 0x30, 0x38) are left out, as is every opcode that has no label and
  falls to \<open>default\<close>.
\<close>

definition implemented_opcodes :: "byte list" where
  "implemented_opcodes =
     [0x00, 0x01, 0x02, 0x03, 0x04, 0x05, 0x06, 0x07, 0x09, 0x0a, 0x0b, 0x0c,
      0x0d, 0x0e, 0x0f, 0x11, 0x12, 0x13, 0x14, 0x15, 0x16, 0x17, 0x19, 0x1a,
      0x1b, 0x1c, 0x1d, 0x1e, 0x1f, 0x21, 0x22, 0x23, 0x24, 0x25, 0x26, 0x29,
      0x2a, 0x2b, 0x2c, 0x2d, 0x2f, 0x31, 0x32, 0x33, 0x34, 0x35, 0x36, 0x37,
      0x39, 0x3a, 0x3b, 0x3c, 0x3d, 0x3f, 0x40, 0x41, 0x42, 0x43, 0x44, 0x45,
      0x46, 0x47, 0x48, 0x49, 0x4a, 0x4b, 0x4c, 0x4d, 0x4e, 0x4f, 0x50, 0x51,
      0x52, 0x53, 0x54, 0x55, 0x56, 0x57, 0x58, 0x59, 0x5a, 0x5b, 0x5c, 0x5d,
      0x5e, 0x5f, 0x60, 0x61, 0x62, 0x63, 0x64, 0x65, 0x66, 0x67, 0x68, 0x69,
      0x6a, 0x6b, 0x6c, 0x6d, 0x6e, 0x6f, 0x70, 0x71, 0x72, 0x73, 0x74, 0x75,
      0x76, 0x77, 0x78, 0x79, 0x7a, 0x7b, 0x7c, 0x7d, 0x7e, 0x7f, 0x80, 0x81,
      0x82, 0x83, 0x84, 0x85, 0x86, 0x87, 0x88, 0x89, 0x8a, 0x8b, 0x8c, 0x8d,
      0x8e, 0x8f, 0x90, 0x91, 0x92, 0x93, 0x94, 0x95, 0x96, 0x97, 0x98, 0x99,
      0x9a, 0x9b, 0x9c, 0x9d, 0x9e, 0x9f, 0xa0, 0xa1, 0xa2, 0xa3, 0xa4, 0xa5,
      0xa6, 0xa7, 0xa8, 0xa9, 0xaa, 0xab, 0xac, 0xad, 0xae, 0xaf, 0xb0, 0xb1,
      0xb2, 0xb3, 0xb4, 0xb5, 0xb6, 0xb7, 0xb8, 0xb9, 0xba, 0xbb, 0xbc, 0xbd,
      0xbe, 0xbf, 0xc1, 0xc2, 0xc3, 0xc5, 0xc6, 0xca, 0xd1, 0xd2, 0xd5, 0xda,
      0xe1, 0xe2, 0xe5, 0xea, 0xf1, 0xf2, 0xf5, 0xfa]"

section \<open>Arithmetic of the widened operands\<close>

text \<open>
  The accumulator instructions widen two bytes to \<open>uint16\<close>, add or subtract there,
  and read the flags off the 16-bit result. These facts relate that result to the
  bytes it came from.
\<close>

lemma unat_byte_lt: "unat (x :: byte) < 256"
  using unsigned_less [of x, where ?'a = nat] by simp

lemma unat_ucast_byte16: "unat (ucast (x :: byte) :: uint16) = unat x"
  using unat_byte_lt [of x] by (simp add: unsigned_ucast_eq take_bit_nat_eq_self)

lemma unat_byte_sum16:
  "unat ((ucast (x :: byte) :: uint16) + ucast (y :: byte)) = unat x + unat y"
  using unat_byte_lt [of x] unat_byte_lt [of y]
  by (simp add: unat_word_ariths unat_ucast_byte16)

lemma sum16_carry:
  "((ucast (x :: byte) :: uint16) + ucast (y :: byte) > CARRY) = (unat x + unat y > 0xFF)"
  by (simp add: CARRY_def word_less_nat_alt unat_byte_sum16)

lemma and_ROUND: "(w :: uint16) AND ROUND = take_bit 8 w"
  by (simp add: ROUND_def take_bit_eq_mask mask_eq_exp_minus_1)

lemma unat_low_byte: "unat (ucast ((w :: uint16) AND ROUND) :: byte) = unat w mod 256"
proof -
  have "unat (ucast (w AND ROUND) :: byte) = take_bit 8 (unat w)"
    by (simp add: and_ROUND unsigned_ucast_eq unsigned_take_bit_eq)
  then show ?thesis by (simp add: take_bit_eq_mod)
qed

lemma sum16_round:
  "unat (ucast (((ucast (x :: byte) :: uint16) + ucast (y :: byte)) AND ROUND) :: byte)
     = (unat x + unat y) mod 256"
  by (simp add: unat_low_byte unat_byte_sum16)

lemma mod256_borrow:
  fixes m n :: nat
  assumes "m < 256" "n < 256" "\<not> n \<le> m"
  shows "(m + 65536 - n) mod 256 = m + 256 - n"
proof -
  have eq: "m + 65536 - n = (m + 256 - n) + 256 * 255" using assms by simp
  have "(m + 65536 - n) mod 256 = ((m + 256 - n) + 256 * 255) mod 256"
    by (simp only: eq)
  also have "\<dots> = (m + 256 - n) mod 256" by (rule mod_mult_self2)
  also have "\<dots> = m + 256 - n" using assms by simp
  finally show ?thesis .
qed

lemma ucast_diff16: "(ucast ((ucast (x :: byte) :: uint16) - ucast (y :: byte)) :: byte) = x - y"
proof -
  have "unat (ucast ((ucast x :: uint16) - ucast y) :: byte) = unat (x - y)"
    using unat_byte_lt [of x] unat_byte_lt [of y]
    by (simp add: unsigned_ucast_eq take_bit_eq_mod unat_sub_if_size unat_ucast_byte16 word_size
        mod256_borrow)
  then show ?thesis by (simp add: word_unat_eq_iff)
qed

lemma diff16_carry:
  "((ucast (x :: byte) :: uint16) - ucast (y :: byte) > CARRY) = (unat x < unat y)"
  using unat_byte_lt [of x] unat_byte_lt [of y]
  by (auto simp add: CARRY_def word_less_nat_alt unat_sub_if_size unat_ucast_byte16 word_size)

lemma and_ZERO: "((w :: uint16) AND ZERO = 0) = ((ucast w :: byte) = 0)"
proof -
  have "w AND ZERO = take_bit 8 w"
    by (simp add: ZERO_def take_bit_eq_mask mask_eq_exp_minus_1)
  moreover have "unat (take_bit 8 w) = unat (ucast w :: byte)"
    by (simp add: unsigned_ucast_eq unsigned_take_bit_eq)
  ultimately show ?thesis by (simp add: word_unat_eq_iff)
qed

lemma and_SIGN: "((w :: uint16) AND SIGN \<noteq> 0) = bit (ucast w :: byte) 7"
proof -
  have "(w AND 2 ^ 7 = 0) = (\<not> bit w 7)"
    by (rule and_exp_eq_0_iff_not_bit)
  then show ?thesis by (simp add: SIGN_def bit_simps)
qed

lemma and_SIGN_byte: "((w :: byte) AND ucast SIGN \<noteq> 0) = bit w 7"
proof -
  have "(w AND 2 ^ 7 = 0) = (\<not> bit w 7)"
    by (rule and_exp_eq_0_iff_not_bit)
  then show ?thesis by (simp add: SIGN_def)
qed

lemma double16_carry: "(2 * (ucast (x :: byte) :: uint16) > CARRY) = (unat x + unat x > 0xFF)"
  unfolding mult_2 by (rule sum16_carry)

lemma double16_round:
  "unat (ucast ((2 * (ucast (x :: byte) :: uint16)) AND ROUND) :: byte) = (unat x + unat x) mod 256"
  unfolding mult_2 by (rule sum16_round)

text \<open>
  The parity loop counts the set bits of the byte, and \<open>parity\<close> sets \<open>p\<close> when that
  count is even.
\<close>

lemma and_1_eq_0_iff: "((w :: byte) AND 0x1 = 0) = (\<not> bit w 0)"
  using and_exp_eq_0_iff_not_bit [of w 0] by (simp only: power_0)

lemma parity_loop_count:
  "unat (parity_loop n w cnt) = (unat cnt + length (filter (bit w) [0..<n])) mod 256"
proof (induction n arbitrary: w cnt)
  case 0
  have "unat cnt < 256" by (rule unat_byte_lt)
  then show ?case by simp
next
  case (Suc n)
  have low: "(w AND 0x1 > 0) = bit w 0"
    unfolding word_greater_zero_iff and_1_eq_0_iff by simp
  have step: "unat (if w AND 0x1 > 0 then cnt + 1 else cnt) = (unat cnt + of_bool (bit w 0)) mod 256"
    using unat_byte_lt [of cnt] by (simp add: low unat_word_ariths)
  have upt: "[0..<Suc n] = 0 # map Suc [0..<n]"
    by (simp add: map_Suc_upt upt_conv_Cons del: upt_Suc)
  have shift: "bit w \<circ> Suc = bit (drop_bit 1 w)"
    by (rule ext) (simp add: bit_drop_bit_eq)
  have cnt: "length (filter (bit w) [0..<Suc n]) =
               of_bool (bit w 0) + length (filter (bit (drop_bit 1 w)) [0..<n])"
    by (simp only: upt filter.simps filter_map length_map shift) simp
  have "unat (parity_loop (Suc n) w cnt) =
          ((unat cnt + of_bool (bit w 0)) mod 256 + length (filter (bit (drop_bit 1 w)) [0..<n])) mod 256"
    by (simp only: parity_loop.simps Suc.IH step)
  also have "\<dots> = (unat cnt + length (filter (bit w) [0..<Suc n])) mod 256"
    by (simp only: cnt mod_add_left_eq add.assoc)
  finally show ?case .
qed

lemma parity_loop_even:
  "(parity_loop 8 (w AND 0xff) 0 AND 0x1 = 0) = even (length (filter (bit w) [0..<8]))"
proof -
  have ones: "(0xff :: byte) = - 1"
    by simp
  have all: "w AND 0xff = w"
    unfolding ones by simp
  have "length (filter (bit w) [0..<8]) \<le> length [0..<8::nat]"
    by (rule length_filter_le)
  then have small: "length (filter (bit w) [0..<8]) < 256"
    by simp
  have "bit (parity_loop 8 w 0) 0 = bit (unat (parity_loop 8 w 0)) 0"
    by (simp add: bit_unsigned_iff)
  also have "\<dots> = odd (unat (parity_loop 8 w 0))"
    by (rule bit_0)
  finally have "(parity_loop 8 w 0 AND 0x1 = 0) = even (unat (parity_loop 8 w 0))"
    by (simp only: and_1_eq_0_iff) simp
  also have "\<dots> = even (length (filter (bit w) [0..<8]))"
    using small by (simp only: parity_loop_count) simp
  finally show ?thesis
    by (simp only: all)
qed

lemma parity_eq:
  "parity w st = st\<lparr>cond := (cond st)\<lparr>p := even (length (filter (bit w) [0..<8]))\<rparr>\<rparr>"
  by (simp add: parity_def Let_def parity_loop_even)

text \<open>
  The printed numbers can be read back: two bytes with the same \<open>%02x\<close> text are
  equal, and so are two \<open>uint16\<close> values with the same \<open>%06d\<close> text.
\<close>

lemma digit_char_inj:
  assumes "i < 16" "j < 16" "digit_char i = digit_char j"
  shows "i = j"
proof -
  have "distinct ''0123456789abcdef''"
    by simp
  from nth_eq_iff_index_eq [OF this, of i j] assms show ?thesis
    by (simp add: digit_char_def)
qed

lemma div_mod_10_eq:
  fixes m n :: nat
  assumes "m div 10 = n div 10" "m mod 10 = n mod 10"
  shows "m = n"
  using assms by (metis div_mult_mod_eq)

lemma fmt_02x_inj:
  assumes "fmt_02x v = fmt_02x w"
  shows "v = w"
proof -
  have lt: "unat v div 16 < 16" "unat w div 16 < 16"
    using unat_byte_lt [of v] unat_byte_lt [of w] by simp_all
  from assms have "digit_char (unat v div 16) = digit_char (unat w div 16)"
    and "digit_char (unat v mod 16) = digit_char (unat w mod 16)"
    by (simp_all add: fmt_02x_def)
  then have "unat v div 16 = unat w div 16" and "unat v mod 16 = unat w mod 16"
    using lt by (auto intro: digit_char_inj)
  then have "unat v = unat w"
    by (metis div_mult_mod_eq)
  then show ?thesis
    by (simp add: word_unat_eq_iff)
qed

lemma fmt_06d_inj:
  assumes "fmt_06d v = fmt_06d w"
  shows "v = w"
proof -
  have dig: "digit_char (m mod 10) = digit_char (n mod 10) \<Longrightarrow> m mod 10 = n mod 10" for m n :: nat
    by (rule digit_char_inj) simp_all
  have lt: "unat v < 100000" "unat w < 100000"
    using unsigned_less [of v, where ?'a = nat] unsigned_less [of w, where ?'a = nat] by simp_all
  from assms have d0: "unat v mod 10 = unat w mod 10"
    and d1: "unat v div 10 mod 10 = unat w div 10 mod 10"
    and d2: "unat v div 100 mod 10 = unat w div 100 mod 10"
    and d3: "unat v div 1000 mod 10 = unat w div 1000 mod 10"
    and d4: "unat v div 10000 mod 10 = unat w div 10000 mod 10"
    by (auto simp add: fmt_06d_def intro: dig)
  have e5: "unat v div 10000 div 10 = unat w div 10000 div 10"
    using lt by (simp add: div_mult2_eq [symmetric])
  have e4: "unat v div 10000 = unat w div 10000"
    using e5 d4 by (rule div_mod_10_eq)
  then have "unat v div 1000 div 10 = unat w div 1000 div 10"
    by (simp add: div_mult2_eq [symmetric])
  then have e3: "unat v div 1000 = unat w div 1000"
    using d3 by (rule div_mod_10_eq)
  then have "unat v div 100 div 10 = unat w div 100 div 10"
    by (simp add: div_mult2_eq [symmetric])
  then have e2: "unat v div 100 = unat w div 100"
    using d2 by (rule div_mod_10_eq)
  then have "unat v div 10 div 10 = unat w div 10 div 10"
    by (simp add: div_mult2_eq [symmetric])
  then have e1: "unat v div 10 = unat w div 10"
    using d1 by (rule div_mod_10_eq)
  then have "unat v = unat w"
    using d0 by (rule div_mod_10_eq)
  then show ?thesis
    by (simp add: word_unat_eq_iff)
qed

text \<open>
  Both formats have a fixed width, so the text of the two lines a fault prints splits in
  one way only, and the numbers shown in it are the ones that were printed.
\<close>

lemma fault_text_inj:
  assumes "fmt_06d v @ '': 0x'' @ fmt_02x w @ [newline] @ ''Unimplemented: 0x'' @ fmt_02x w @ [newline]
         = fmt_06d v' @ '': 0x'' @ fmt_02x w' @ [newline] @ ''Unimplemented: 0x'' @ fmt_02x w' @ [newline]"
  shows "v = v' \<and> w = w'"
proof -
  have len: "length (fmt_06d v) = length (fmt_06d v')"
    by (simp add: fmt_06d_def)
  from assms have dec: "fmt_06d v = fmt_06d v'"
    and rest: "'': 0x'' @ fmt_02x w @ [newline] @ ''Unimplemented: 0x'' @ fmt_02x w @ [newline]
             = '': 0x'' @ fmt_02x w' @ [newline] @ ''Unimplemented: 0x'' @ fmt_02x w' @ [newline]"
    using append_eq_append_conv [OF disjI1 [OF len]] by blast+
  from rest have "fmt_02x w = fmt_02x w'"
    by (simp add: fmt_02x_def)
  with dec show ?thesis
    by (simp add: fmt_06d_inj fmt_02x_inj)
qed

text \<open>The formats at some values.\<close>

lemma fmt_examples:
  "fmt_06d 0 = ''000000''" "fmt_06d 9 = ''000009''" "fmt_06d 0x1234 = ''004660''"
  "fmt_06d 0xffff = ''065535''"
  "fmt_02x 0 = ''00''" "fmt_02x 0x0a = ''0a''" "fmt_02x 0xd3 = ''d3''" "fmt_02x 0xff = ''ff''"
  by (simp_all add: fmt_06d_def fmt_02x_def digit_char_def)

section \<open>Single instructions\<close>

text \<open>
  What \<open>Emulate\<close> does on the opcodes the statements below talk about, for an
  arbitrary state: the state it hands back to the driver loop, with the final
  \<open>s.pc += 1\<close> already applied.
\<close>

lemma snd_run_0: "snd (run 0 st) = Running st"
  by simp

lemma snd_run_Suc:
  "snd (run (Suc n) st) =
     (case snd (Emulate st) of Running st' \<Rightarrow> snd (run n st') | Exited code st' \<Rightarrow> Exited code st')"
  by (simp split: prod.splits outcome.splits)

declare run.simps [simp del]

text \<open>Running one more instruction after \<open>n\<close> that did not exit.\<close>

lemma snd_run_Suc_end:
  "snd (run n st) = Running st' \<Longrightarrow> snd (run (Suc n) st) = snd (Emulate st')"
proof (induction n arbitrary: st)
  case 0
  then show ?case
    by (simp add: snd_run_0 snd_run_Suc split: outcome.splits)
next
  case (Suc n)
  from Suc.prems obtain st1 where st1: "snd (Emulate st) = Running st1"
    and rest: "snd (run n st1) = Running st'"
    by (subst (asm) snd_run_Suc) (auto split: outcome.splits)
  have "snd (run (Suc (Suc n)) st) = snd (run (Suc n) st1)"
    by (subst snd_run_Suc) (simp add: st1)
  with Suc.IH [OF rest] show ?case
    by simp
qed

lemma Emulate_NOP:
  "memory st (pc st) = 0x00 \<Longrightarrow> snd (Emulate st) = Running (st\<lparr>pc := pc st + 1\<rparr>)"
  by (simp add: Emulate_def Let_def running_def)

lemma Emulate_MVI_B:
  "memory st (pc st) = 0x06 \<Longrightarrow>
   snd (Emulate st) = Running (st\<lparr>b := memory st (pc st + 1), pc := pc st + 2\<rparr>)"
  by (simp add: Emulate_def Let_def running_def)

lemma Emulate_DCX_B:
  "memory st (pc st) = 0x0b \<Longrightarrow>
   snd (Emulate st) = Running ((setBC (getBC st - 1) st)\<lparr>pc := pc st + 1\<rparr>)"
  by (simp add: Emulate_def Let_def running_def setBC_def)

lemma Emulate_LXI_SP:
  "memory st (pc st) = 0x31 \<Longrightarrow>
   snd (Emulate st) = Running (st\<lparr>sp := getAddr st, pc := pc st + 3\<rparr>)"
  by (simp add: Emulate_def Let_def running_def)

lemma Emulate_MOV_B_M:
  "memory st (pc st) = 0x46 \<Longrightarrow>
   snd (Emulate st) = Running (st\<lparr>b := memory st (getAddr st), pc := pc st + 1\<rparr>)"
  by (simp add: Emulate_def Let_def running_def)

lemma Emulate_MOV_M_B:
  "memory st (pc st) = 0x70 \<Longrightarrow>
   snd (Emulate st) =
     Running (st\<lparr>memory := (memory st)(getAddr st := b st), pc := pc st + 1\<rparr>)"
  by (simp add: Emulate_def Let_def running_def)

lemma Emulate_ANA_B:
  "memory st (pc st) = 0xa0 \<Longrightarrow>
   snd (Emulate st) = Running ((doLogicFlags (st\<lparr>a := a st AND b st\<rparr>))\<lparr>pc := pc st + 1\<rparr>)"
  by (simp add: Emulate_def Let_def running_def doLogicFlags_def parity_def)

lemma Emulate_XRA_A:
  "memory st (pc st) = 0xaf \<Longrightarrow>
   snd (Emulate st) = Running ((doLogicFlags (st\<lparr>a := a st XOR a st\<rparr>))\<lparr>pc := pc st + 1\<rparr>)"
  by (simp add: Emulate_def Let_def running_def doLogicFlags_def parity_def)

text \<open>
  The nine jumps. \<open>taken\<close> is the test the case makes on the flags (\<open>JMP\<close> makes
  none). A jump that is taken assigns the operand to \<open>pc\<close> and then runs into the
  \<open>s.pc += 1\<close> that ends \<open>Emulate\<close>, like every other case. One that is not taken adds
  2 first, except \<open>JPO\<close>, which adds 1.
\<close>

lemma jump_taken:
  assumes "(opcode, taken) \<in> set [(0xc2, \<not> z (cond st)), (0xc3, True), (0xca, z (cond st)),
             (0xd2, \<not> cy (cond st)), (0xda, cy (cond st)), (0xe2, \<not> p (cond st)),
             (0xea, p (cond st)), (0xf2, \<not> s (cond st)), (0xfa, s (cond st))]"
    and "memory st (pc st) = opcode" and "taken"
  shows "snd (Emulate st) = Running (st\<lparr>pc := getAddr st + 1\<rparr>)"
proof -
  from assms(1) have
    "opcode = 0xc2 \<and> taken = (\<not> z (cond st)) \<or> opcode = 0xc3 \<or>
     opcode = 0xca \<and> taken = z (cond st) \<or> opcode = 0xd2 \<and> taken = (\<not> cy (cond st)) \<or>
     opcode = 0xda \<and> taken = cy (cond st) \<or> opcode = 0xe2 \<and> taken = (\<not> p (cond st)) \<or>
     opcode = 0xea \<and> taken = p (cond st) \<or> opcode = 0xf2 \<and> taken = (\<not> s (cond st)) \<or>
     opcode = 0xfa \<and> taken = s (cond st)"
    by auto
  with assms(2,3) show ?thesis
    by (elim disjE conjE) (simp_all add: Emulate_def Let_def running_def)
qed

lemma jump_not_taken:
  assumes "(opcode, taken) \<in> set [(0xc2, \<not> z (cond st)), (0xca, z (cond st)),
             (0xd2, \<not> cy (cond st)), (0xda, cy (cond st)), (0xe2, \<not> p (cond st)),
             (0xea, p (cond st)), (0xf2, \<not> s (cond st)), (0xfa, s (cond st))]"
    and "memory st (pc st) = opcode" and "\<not> taken"
  shows "snd (Emulate st) = Running (st\<lparr>pc := pc st + (if opcode = 0xe2 then 2 else 3)\<rparr>)"
proof -
  from assms(1) have
    "opcode = 0xc2 \<and> taken = (\<not> z (cond st)) \<or>
     opcode = 0xca \<and> taken = z (cond st) \<or> opcode = 0xd2 \<and> taken = (\<not> cy (cond st)) \<or>
     opcode = 0xda \<and> taken = cy (cond st) \<or> opcode = 0xe2 \<and> taken = (\<not> p (cond st)) \<or>
     opcode = 0xea \<and> taken = p (cond st) \<or> opcode = 0xf2 \<and> taken = (\<not> s (cond st)) \<or>
     opcode = 0xfa \<and> taken = s (cond st)"
    by auto
  with assms(2,3) show ?thesis
    by (elim disjE conjE) (simp_all add: Emulate_def Let_def running_def)
qed

text \<open>Stack instructions.\<close>

lemma Emulate_PUSH:
  assumes "(opcode, high, low) \<in> set [(0xc5, b st, c st), (0xd5, d st, e st), (0xe5, h st, l st)]"
    and "memory st (pc st) = opcode"
  shows "snd (Emulate st) = Running ((push high low st)\<lparr>pc := pc st + 1\<rparr>)"
proof -
  from assms(1) have
    "opcode = 0xc5 \<and> high = b st \<and> low = c st \<or> opcode = 0xd5 \<and> high = d st \<and> low = e st \<or>
     opcode = 0xe5 \<and> high = h st \<and> low = l st"
    by simp
  with assms(2) show ?thesis
    by (elim disjE conjE) (simp_all add: Emulate_def Let_def running_def push_def)
qed

lemma Emulate_POP_B:
  "memory st (pc st) = 0xc1 \<Longrightarrow>
   snd (Emulate st) =
     Running (st\<lparr>sp := sp st + 2, b := memory st (sp st + 1), c := memory st (sp st),
                 pc := pc st + 1\<rparr>)"
  by (simp add: Emulate_def Let_def running_def pop_def)

lemma Emulate_POP_D:
  "memory st (pc st) = 0xd1 \<Longrightarrow>
   snd (Emulate st) =
     Running (st\<lparr>sp := sp st + 2, d := memory st (sp st + 1), e := memory st (sp st),
                 pc := pc st + 1\<rparr>)"
  by (simp add: Emulate_def Let_def running_def pop_def)

lemma Emulate_POP_H:
  "memory st (pc st) = 0xe1 \<Longrightarrow>
   snd (Emulate st) =
     Running (st\<lparr>sp := sp st + 2, h := memory st (sp st + 1), l := memory st (sp st),
                 pc := pc st + 1\<rparr>)"
  by (simp add: Emulate_def Let_def running_def pop_def)

lemma Emulate_POP_PSW:
  "memory st (pc st) = 0xf1 \<Longrightarrow>
   snd (Emulate st) =
     Running (st\<lparr>sp := sp st + 2, a := memory st (sp st + 1),
                 cond := \<lparr>cy = (memory st (sp st) AND 0x01 = 0x01),
                          pad1 = (memory st (sp st) AND 0x02 = 0x02),
                          p = (memory st (sp st) AND 0x04 = 0x04),
                          pad2 = (memory st (sp st) AND 0x08 = 0x08),
                          ac = (memory st (sp st) AND 0x10 = 0x10),
                          pad3 = (memory st (sp st) AND 0x20 = 0x20),
                          z = (memory st (sp st) AND 0x40 = 0x40),
                          s = (memory st (sp st) AND 0x80 = 0x80)\<rparr>,
                 pc := pc st + 1\<rparr>)"
  by (simp add: Emulate_def Let_def running_def pop_def)

lemma Emulate_PUSH_PSW:
  "memory st (pc st) = 0xf5 \<Longrightarrow>
   snd (Emulate st) =
     Running ((push (a st) (psw_loop (cond_fields (cond st)) 0 0x01) st)\<lparr>pc := pc st + 1\<rparr>)"
  by (simp add: Emulate_def Let_def running_def push_def)

text \<open>
  The 24 logic opcodes \<open>ANA\<close>, \<open>XRA\<close>, \<open>ORA\<close> (0xa0 to 0xb7) all end in
  \<open>doLogicFlags\<close>, which assigns \<open>cy = !ac\<close>.
\<close>

lemma logic_op_carry:
  assumes "memory st (pc st) \<in> set [0xa0, 0xa1, 0xa2, 0xa3, 0xa4, 0xa5, 0xa6, 0xa7,
                                       0xa8, 0xa9, 0xaa, 0xab, 0xac, 0xad, 0xae, 0xaf,
                                       0xb0, 0xb1, 0xb2, 0xb3, 0xb4, 0xb5, 0xb6, 0xb7]"
  shows "\<exists>out st'. Emulate st = (out, Running st') \<and> cy (cond st') = (\<not> ac (cond st))"
  using assms
  apply (simp only: list.set insert_iff empty_iff)
  apply (elim disjE)
  apply (simp_all add: Emulate_def Let_def running_def doLogicFlags_def parity_def)
  done

text \<open>
  The loop that packs the flag byte puts field number \<open>i\<close> of \<open>Conditions\<close> into bit
  \<open>i\<close>: started with the mask at bit \<open>k\<close>, it sets bit \<open>n\<close> exactly when field
  \<open>n - k\<close> is true, and keeps what \<open>psw\<close> already had.
\<close>

lemma psw_loop_bit:
  "n < 8 \<Longrightarrow>
   bit (psw_loop fs psw (push_bit k 1)) n =
     (bit psw n \<or> (k \<le> n \<and> n - k < length fs \<and> fs ! (n - k)))"
proof (induction fs arbitrary: psw k)
  case Nil
  then show ?case by simp
next
  case (Cons f fs)
  have flag: "push_bit 1 (push_bit k (1 :: byte)) = push_bit (Suc k) 1"
    by (simp add: push_bit_add [symmetric] del: push_bit_of_1)
  have here: "bit (if f then psw OR push_bit k 1 else psw) n = (bit psw n \<or> (f \<and> n = k))"
    using Cons.prems by (auto simp add: bit_simps)
  have "bit (psw_loop (f # fs) psw (push_bit k 1)) n =
          (bit (if f then psw OR push_bit k 1 else psw) n \<or>
           (Suc k \<le> n \<and> n - Suc k < length fs \<and> fs ! (n - Suc k)))"
    using Cons.IH [OF Cons.prems, of "if f then psw OR push_bit k 1 else psw" "Suc k"]
    by (simp only: psw_loop.simps flag)
  also have "\<dots> = (bit psw n \<or> (k \<le> n \<and> n - k < length (f # fs) \<and> (f # fs) ! (n - k)))"
    unfolding here by (cases "n = k") (auto simp add: nth_Cons' Suc_diff_Suc less_Suc_eq_le)
  finally show ?case .
qed

text \<open>
  The two ways \<open>Emulate\<close> can go. On an opcode outside \<open>implemented_opcodes\<close> the
  \<open>switch\<close> reaches \<open>s.unimplemented()\<close>, by one of the eight labels that call it or
  by \<open>default\<close>, with the state as it was on entry. On an opcode in the list it either
  returns to the driver loop or, for \<open>HLT\<close>, exits with status 0; no case assigns
  \<open>s.enable\<close>.
\<close>

lemma Emulate_fault:
  assumes "memory st (pc st) \<notin> set implemented_opcodes"
  shows "Emulate st =
           (fmt_06d (pc st) @ '': 0x'' @ fmt_02x (memory st (pc st)) @ [newline] @
            ''Unimplemented: 0x'' @ fmt_02x (memory st (pc st)) @ [newline],
            Exited 1 st)"
  using assms
  apply (simp only: implemented_opcodes_def list.set insert_iff empty_iff de_Morgan_disj simp_thms)
  apply (simp add: Emulate_def Let_def unimplemented_def os_Exit_def running_def)
  done

lemma Emulate_implemented:
  assumes "memory st (pc st) \<in> set implemented_opcodes"
  shows "case snd (Emulate st) of
           Running st' \<Rightarrow> enable st' = enable st
         | Exited code st' \<Rightarrow> code = 0 \<and> st' = st"
  using assms
  apply (simp only: implemented_opcodes_def list.set insert_iff empty_iff)
  apply (elim disjE)
  apply (simp_all add: Emulate_def Let_def running_def unimplemented_def os_Exit_def
      doZSPFlags_def doLogicFlags_def doArithFlags_def parity_def setBC_def setDE_def setHL_def
      setCarry_def push_def pop_def split: prod.splits)
  done

text \<open>
  \<open>POP PSW\<close> tests each bit of the popped byte with a mask; \<open>PUSH PSW\<close> followed by
  \<open>POP PSW\<close> gives back the accumulator, all eight fields of \<open>Conditions\<close> and the
  stack pointer.
\<close>

lemma and_exp_eq_exp_iff:
  "n < 8 \<Longrightarrow> ((w :: byte) AND 2 ^ n = 2 ^ n) = bit w n"
proof -
  assume n: "n < 8"
  have "(w AND 2 ^ n = 2 ^ n) = (w AND 2 ^ n \<noteq> 0)"
  proof
    assume "w AND 2 ^ n = 2 ^ n"
    with n show "w AND 2 ^ n \<noteq> 0" by simp
  next
    assume nz: "w AND 2 ^ n \<noteq> 0"
    then have "bit w n" by (simp add: and_exp_eq_0_iff_not_bit)
    then show "w AND 2 ^ n = 2 ^ n"
      by (intro bit_word_eqI) (auto simp add: bit_simps)
  qed
  then show ?thesis
    by (simp add: and_exp_eq_0_iff_not_bit)
qed

lemma PUSH_POP_PSW_roundtrip:
  assumes "memory st (pc st) = 0xf5"
    and "snd (Emulate st) = Running st1"
    and "memory st1 (pc st1) = 0xf1"
  shows "\<exists>st2. snd (Emulate st1) = Running st2 \<and> a st2 = a st \<and> cond st2 = cond st \<and>
           sp st2 = sp st"
proof -
  have up: "x - 2 + 1 = x - 1" and ne: "x - 1 \<noteq> x - 2" for x :: uint16
    by simp_all
  have bits: "n < 8 \<Longrightarrow> bit (psw_loop (cond_fields (cond st)) 0 0x01) n = cond_fields (cond st) ! n" for n
    using psw_loop_bit [of n "cond_fields (cond st)" 0 0] by (simp add: cond_fields_def)
  have masks: "(w AND 0x01 = 0x01) = bit w 0" "(w AND 0x02 = 0x02) = bit w 1"
    "(w AND 0x04 = 0x04) = bit w 2" "(w AND 0x08 = 0x08) = bit w 3"
    "(w AND 0x10 = 0x10) = bit w 4" "(w AND 0x20 = 0x20) = bit w 5"
    "(w AND 0x40 = 0x40) = bit w 6" "(w AND 0x80 = 0x80) = bit w 7" for w :: byte
    using and_exp_eq_exp_iff [of 0 w] and_exp_eq_exp_iff [of 1 w] and_exp_eq_exp_iff [of 2 w]
      and_exp_eq_exp_iff [of 3 w] and_exp_eq_exp_iff [of 4 w] and_exp_eq_exp_iff [of 5 w]
      and_exp_eq_exp_iff [of 6 w] and_exp_eq_exp_iff [of 7 w]
    by simp_all
  from assms(1,2) have st1: "st1 = (push (a st) (psw_loop (cond_fields (cond st)) 0 0x01) st)\<lparr>pc := pc st + 1\<rparr>"
    by (simp add: Emulate_PUSH_PSW)
  from Emulate_POP_PSW [OF assms(3)] show ?thesis
    by (simp add: st1 push_def Let_def up ne masks bits) (simp add: cond_fields_def)
qed

text \<open>
  The eight \<open>CMP\<close> opcodes (0xb8 to 0xbf). None assigns the accumulator, and each
  derives the flags through \<open>doArithFlags\<close> from the 16-bit difference of the
  accumulator and the byte its case reads: a register for seven of them, and for
  \<open>CMP M\<close> the memory cell that \<open>getAddr\<close> names, after which that case also adds 2
  to \<open>pc\<close>.
\<close>

lemma CMP_accumulator_and_flags:
  assumes "(opcode, x) \<in> set [(0xb8, b st), (0xb9, c st), (0xba, d st), (0xbb, e st),
                               (0xbc, h st), (0xbd, l st), (0xbe, memory st (getAddr st)),
                               (0xbf, a st)]"
    and "memory st (pc st) = opcode"
  shows "\<exists>out st'. Emulate st = (out, Running st') \<and> a st' = a st \<and>
           cond st' = cond (doArithFlags (ucast (a st) - ucast x) st) \<and>
           z (cond st') = (a st = x) \<and>
           s (cond st') = bit (a st - x) 7 \<and>
           cy (cond st') = (unat (a st) < unat x) \<and>
           p (cond st') = even (length (filter (bit (a st - x)) [0..<8]))"
proof -
  from assms(1) have
    "opcode = 0xb8 \<and> x = b st \<or> opcode = 0xb9 \<and> x = c st \<or> opcode = 0xba \<and> x = d st \<or>
     opcode = 0xbb \<and> x = e st \<or> opcode = 0xbc \<and> x = h st \<or> opcode = 0xbd \<and> x = l st \<or>
     opcode = 0xbe \<and> x = memory st (getAddr st) \<or> opcode = 0xbf \<and> x = a st"
    by simp
  with assms(2) show ?thesis
    by (elim disjE conjE)
       (simp_all add: Emulate_def Let_def running_def doArithFlags_def parity_eq
          diff16_carry and_ZERO and_SIGN ucast_diff16)
qed

lemma Emulate_CMP_M:
  "memory st (pc st) = 0xbe \<Longrightarrow>
   snd (Emulate st) =
     Running ((doArithFlags (ucast (a st) - ucast (memory st (getAddr st))) st)\<lparr>pc := pc st + 3\<rparr>)"
  by (simp add: Emulate_def Let_def running_def doArithFlags_def parity_eq)

section \<open>Properties of the emulator\<close>

subsection \<open>C1: where a jump lands\<close>

text \<open>
  C1 says that a jump which is taken leaves the program counter exactly at its 16-bit
  operand, and that one which is not taken leaves it 3 bytes further on. Evaluated on the
  code: \<open>JMP 0x1234\<close> at address 0 leaves the program counter at 0x1235, one past the
  operand, because the \<open>s.pc += 1\<close> that ends \<open>Emulate\<close> also runs after the jump has
  assigned \<open>pc\<close>. And in the image \<open>XRA A; JPO 0x1234\<close> the \<open>JPO\<close> at address 1 finds
  \<open>p\<close> set, is not taken, and leaves the program counter at 3, two bytes further on and
  in the middle of its own operand. The lemmas \<open>jump_taken\<close> and \<open>jump_not_taken\<close>
  say the same of every state.
\<close>

theorem C1_jump_lands_past_operand:
  "getAddr (boot [0xc3, 0x34, 0x12]) = 0x1234 \<and>
   snd (Emulate (boot [0xc3, 0x34, 0x12])) = Running ((boot [0xc3, 0x34, 0x12])\<lparr>pc := 0x1235\<rparr>) \<and>
   pc (state_of (snd (run 1 (boot [0xaf, 0xe2, 0x34, 0x12])))) = 1 \<and>
   p (cond (state_of (snd (run 1 (boot [0xaf, 0xe2, 0x34, 0x12]))))) \<and>
   pc (state_of (snd (run 2 (boot [0xaf, 0xe2, 0x34, 0x12])))) = 3"
proof -
  have jmp: "memory (boot [0xc3, 0x34, 0x12]) (pc (boot [0xc3, 0x34, 0x12])) = 0xc3"
    by (simp add: boot_def new_State_def copy_image_def)
  have adr: "getAddr (boot [0xc3, 0x34, 0x12]) = 0x1234"
    by (simp add: getAddr_def boot_def new_State_def copy_image_def)
  have one: "snd (Emulate (boot [0xc3, 0x34, 0x12])) = Running ((boot [0xc3, 0x34, 0x12])\<lparr>pc := 0x1235\<rparr>)"
    using jump_taken [of "0xc3" True "boot [0xc3, 0x34, 0x12]"] jmp adr by simp
  define st1 where "st1 = (boot [0xaf, 0xe2, 0x34, 0x12])
      \<lparr>a := 0,
       cond := \<lparr>cy = True, pad1 = False, p = True, pad2 = False,
                ac = False, pad3 = False, z = True, s = False\<rparr>,
       pc := 1\<rparr>"
  have par: "parity_loop 8 0 0 = 0"
    by (simp add: eval_nat_numeral)
  have xra: "snd (run 1 (boot [0xaf, 0xe2, 0x34, 0x12])) = Running st1"
    by (simp add: st1_def snd_run_0 snd_run_Suc Emulate_XRA_A boot_def new_State_def
          copy_image_def doLogicFlags_def parity_def par SIGN_def)
  have op1: "memory st1 (pc st1) = 0xe2"
    by (simp add: st1_def boot_def new_State_def copy_image_def)
  have "snd (Emulate st1) = Running (st1\<lparr>pc := pc st1 + 2\<rparr>)"
    using jump_not_taken [of "0xe2" False st1] op1 by (simp add: st1_def)
  with snd_run_Suc_end [OF xra] have jpo: "snd (run 2 (boot [0xaf, 0xe2, 0x34, 0x12])) = Running (st1\<lparr>pc := 3\<rparr>)"
    by (simp add: st1_def numeral_2_eq_2)
  show ?thesis
    using adr one xra jpo by (simp add: state_of_def st1_def)
qed

subsection \<open>C2: MOV between a register and memory\<close>

text \<open>
  C2 says that \<open>MOV r,M\<close> and \<open>MOV M,r\<close> move a byte between the register and the
  memory cell addressed by the H/L pair. Evaluated on the code, which addresses the cell
  with \<open>getAddr\<close> (the two bytes after the opcode) where \<open>ADD M\<close>, \<open>INR M\<close> and
  \<open>MVI M\<close> use \<open>getHL\<close>: with H/L = 0, \<open>MOV B,M\<close> followed by the bytes 0x03, 0x00
  loads B from address 3 (0x99), not from address 0 (0x46); and after \<open>MVI B,0x77\<close> the
  instruction \<open>MOV M,B\<close> followed by 0x08, 0x00 stores B at address 8 and leaves address 0
  as it was. The flags are not touched.
\<close>

theorem C2_MOV_M_uses_operand_bytes:
  "getHL (boot [0x46, 0x03, 0x00, 0x99]) = 0 \<and>
   memory (boot [0x46, 0x03, 0x00, 0x99]) 0 = 0x46 \<and>
   b (state_of (snd (Emulate (boot [0x46, 0x03, 0x00, 0x99])))) = 0x99 \<and>
   cond (state_of (snd (Emulate (boot [0x46, 0x03, 0x00, 0x99])))) = cond (boot [0x46, 0x03, 0x00, 0x99]) \<and>
   getHL (state_of (snd (run 1 (boot [0x06, 0x77, 0x70, 0x08, 0x00])))) = 0 \<and>
   b (state_of (snd (run 1 (boot [0x06, 0x77, 0x70, 0x08, 0x00])))) = 0x77 \<and>
   memory (state_of (snd (run 2 (boot [0x06, 0x77, 0x70, 0x08, 0x00])))) 0 = 0x06 \<and>
   memory (state_of (snd (run 2 (boot [0x06, 0x77, 0x70, 0x08, 0x00])))) 8 = 0x77"
proof -
  have hl: "getHL (boot [0x46, 0x03, 0x00, 0x99]) = 0 \<and> memory (boot [0x46, 0x03, 0x00, 0x99]) 0 = 0x46"
    by (simp add: boot_def new_State_def copy_image_def getHL_def)
  have ld: "snd (Emulate (boot [0x46, 0x03, 0x00, 0x99])) =
              Running ((boot [0x46, 0x03, 0x00, 0x99])\<lparr>b := 0x99, pc := 1\<rparr>)"
    by (simp add: Emulate_MOV_B_M boot_def new_State_def copy_image_def getAddr_def)
  define st1 where "st1 = (boot [0x06, 0x77, 0x70, 0x08, 0x00])\<lparr>b := 0x77, pc := 2\<rparr>"
  have mvi: "snd (run 1 (boot [0x06, 0x77, 0x70, 0x08, 0x00])) = Running st1"
    by (simp add: st1_def snd_run_0 snd_run_Suc Emulate_MVI_B boot_def new_State_def copy_image_def)
  have op1: "memory st1 (pc st1) = 0x70"
    by (simp add: st1_def boot_def new_State_def copy_image_def)
  have adr: "getAddr st1 = 8"
    by (simp add: st1_def getAddr_def boot_def new_State_def copy_image_def)
  have "snd (Emulate st1) = Running (st1\<lparr>memory := (memory st1)(8 := b st1), pc := pc st1 + 1\<rparr>)"
    using Emulate_MOV_M_B [OF op1] adr by simp
  with snd_run_Suc_end [OF mvi]
  have sto: "snd (run 2 (boot [0x06, 0x77, 0x70, 0x08, 0x00])) =
               Running (st1\<lparr>memory := (memory st1)(8 := b st1), pc := pc st1 + 1\<rparr>)"
    by (simp add: numeral_2_eq_2)
  have hl1: "getHL st1 = 0 \<and> b st1 = 0x77 \<and> memory st1 0 = 0x06"
    by (simp add: st1_def getHL_def boot_def new_State_def copy_image_def)
  show ?thesis
    using hl ld mvi sto hl1 by (simp add: state_of_def)
qed

subsection \<open>C3: the carry flag after a logic operation\<close>

text \<open>
  C3 says that \<open>ANA\<close>, \<open>XRA\<close> and \<open>ORA\<close> always leave \<open>cy\<close> false. Evaluated on the
  code: \<open>doLogicFlags\<close> assigns \<open>cy = !ac\<close>, and \<open>ac\<close> is false from startup on, so the
  first \<open>ANA B\<close> of the image \<open>[0xa0]\<close> leaves \<open>cy\<close> true. The lemma
  \<open>logic_op_carry\<close> says the same of every state and each of the 24 opcodes.
\<close>

theorem C3_logic_op_carry_is_not_ac:
  "\<not> ac (cond (boot [0xa0])) \<and> cy (cond (state_of (snd (Emulate (boot [0xa0])))))"
  by (simp add: Emulate_ANA_B boot_def new_State_def copy_image_def state_of_def
        doLogicFlags_def parity_def)

subsection \<open>C4: storing a register pair\<close>

text \<open>
  C4 says that \<open>setBC\<close>, \<open>setDE\<close> and \<open>setHL\<close> store the low byte of their argument
  in the low register of the pair and the high byte in the high register. Evaluated on the
  code at the argument 0x1234: the byte meant to be the high one is computed as
  \<open>(v * 0xff00) >> 8\<close>, a product where a mask was meant, and comes out as 0xCC instead of
  0x12; \<open>setDE\<close> and \<open>setHL\<close> moreover store the low byte 0x34 in the high register
  (D, H) and the other byte in the low register (E, L). Through \<open>DCX B\<close>, the image
  \<open>[0x0b]\<close> decrements BC = 0 to B = 0x01, C = 0xFF.
\<close>

theorem C4_setPair_loses_high_byte:
  "b (setBC 0x1234 new_State) = 0xCC \<and> c (setBC 0x1234 new_State) = 0x34 \<and>
   d (setDE 0x1234 new_State) = 0x34 \<and> e (setDE 0x1234 new_State) = 0xCC \<and>
   h (setHL 0x1234 new_State) = 0x34 \<and> l (setHL 0x1234 new_State) = 0xCC \<and>
   b (state_of (snd (Emulate (boot [0x0b])))) = 0x01 \<and>
   c (state_of (snd (Emulate (boot [0x0b])))) = 0xFF"
  by (simp add: setBC_def setDE_def setHL_def getBC_def Let_def Emulate_DCX_B
        boot_def new_State_def copy_image_def state_of_def)

subsection \<open>C5: the compare instructions\<close>

text \<open>
  C5 says that every \<open>CMP\<close> leaves the accumulator unchanged and derives the flags from
  the accumulator minus the operand. The accumulator is indeed never assigned, and for the
  seven register forms the flags are those of that difference (lemma
  \<open>CMP_accumulator_and_flags\<close>). Evaluated on the code for \<open>CMP M\<close>, whose operand is
  the memory cell addressed by H/L: the case reads the cell that \<open>getAddr\<close> names (the
  two bytes after the opcode) where \<open>SUB M\<close> reads through \<open>getHL\<close>. From startup on
  the image \<open>[0xbe, 0x03, 0x00, 0x00]\<close> the accumulator and H/L are 0 and the cell at
  H/L holds 0xbe, so the difference 0 - 0xbe gives \<open>z\<close> false and \<open>cy\<close> true; the code
  compares with the 0 at address 3 and leaves \<open>z\<close> true and \<open>cy\<close> false.
\<close>

theorem C5_CMP_M_uses_operand_bytes:
  "a (boot [0xbe, 0x03, 0x00, 0x00]) = 0 \<and>
   getHL (boot [0xbe, 0x03, 0x00, 0x00]) = 0 \<and>
   memory (boot [0xbe, 0x03, 0x00, 0x00]) (getHL (boot [0xbe, 0x03, 0x00, 0x00])) = 0xbe \<and>
   \<not> z (cond (doArithFlags (ucast (a (boot [0xbe, 0x03, 0x00, 0x00])) -
                              ucast (memory (boot [0xbe, 0x03, 0x00, 0x00])
                                       (getHL (boot [0xbe, 0x03, 0x00, 0x00]))))
                 (boot [0xbe, 0x03, 0x00, 0x00]))) \<and>
   cy (cond (doArithFlags (ucast (a (boot [0xbe, 0x03, 0x00, 0x00])) -
                            ucast (memory (boot [0xbe, 0x03, 0x00, 0x00])
                                     (getHL (boot [0xbe, 0x03, 0x00, 0x00]))))
               (boot [0xbe, 0x03, 0x00, 0x00]))) \<and>
   a (state_of (snd (Emulate (boot [0xbe, 0x03, 0x00, 0x00])))) = 0 \<and>
   z (cond (state_of (snd (Emulate (boot [0xbe, 0x03, 0x00, 0x00]))))) \<and>
   \<not> cy (cond (state_of (snd (Emulate (boot [0xbe, 0x03, 0x00, 0x00])))))"
proof -
  define st where "st = boot [0xbe, 0x03, 0x00, 0x00]"
  have regs: "a st = 0" "getHL st = 0" "memory st 0 = 0xbe"
    by (simp_all add: st_def getHL_def boot_def new_State_def copy_image_def)
  have op: "memory st (pc st) = 0xbe"
    by (simp add: st_def boot_def new_State_def copy_image_def)
  have adr: "memory st (getAddr st) = 0"
    by (simp add: st_def getAddr_def boot_def new_State_def copy_image_def)
  have want: "\<not> z (cond (doArithFlags (ucast (a st) - ucast (memory st (getHL st))) st))"
    "cy (cond (doArithFlags (ucast (a st) - ucast (memory st (getHL st))) st))"
    by (simp_all add: regs doArithFlags_def parity_eq Let_def ZERO_def CARRY_def)
  have got: "snd (Emulate st) = Running ((doArithFlags 0 st)\<lparr>pc := pc st + 3\<rparr>)"
    using Emulate_CMP_M [OF op] by (simp add: adr regs)
  have flags: "a (doArithFlags 0 st) = 0" "z (cond (doArithFlags 0 st))"
    "\<not> cy (cond (doArithFlags 0 st))"
    by (simp_all add: regs doArithFlags_def parity_eq Let_def ZERO_def CARRY_def)
  show ?thesis
    using regs want got flags unfolding st_def [symmetric]
    by (simp add: state_of_def)
qed

subsection \<open>C6: carry and sum of ADD\<close>

text \<open>
  C6. For every accumulator value and every operand value, each of the eight \<open>ADD\<close>
  opcodes (0x80 to 0x87: the registers B, C, D, E, H, L, the memory cell addressed by H/L,
  and the accumulator itself) returns to the driver loop with \<open>cy\<close> set exactly when the
  sum of the two bytes exceeds 0xFF, and with the sum modulo 256 in the accumulator.
\<close>

theorem C6_ADD_carry_and_sum:
  assumes "(opcode, x) \<in> set [(0x80, b st), (0x81, c st), (0x82, d st), (0x83, e st),
                               (0x84, h st), (0x85, l st), (0x86, memory st (getHL st)),
                               (0x87, a st)]"
    and "memory st (pc st) = opcode"
  shows "\<exists>out st'. Emulate st = (out, Running st') \<and>
           cy (cond st') = (unat (a st) + unat x > 0xFF) \<and>
           unat (a st') = (unat (a st) + unat x) mod 256"
proof -
  from assms(1) have
    "opcode = 0x80 \<and> x = b st \<or> opcode = 0x81 \<and> x = c st \<or> opcode = 0x82 \<and> x = d st \<or>
     opcode = 0x83 \<and> x = e st \<or> opcode = 0x84 \<and> x = h st \<or> opcode = 0x85 \<and> x = l st \<or>
     opcode = 0x86 \<and> x = memory st (getHL st) \<or> opcode = 0x87 \<and> x = a st"
    by simp
  with assms(2) show ?thesis
    by (elim disjE conjE)
       (simp_all add: Emulate_def Let_def running_def doArithFlags_def parity_def
          sum16_carry sum16_round double16_carry double16_round)
qed

theorem C6_ADD_carry_and_sum_witness:
  "\<exists>out st'. Emulate ((boot [0x80])\<lparr>a := 200, b := 100\<rparr>) = (out, Running st') \<and>
      cy (cond st') \<and> unat (a st') = 44"
  using C6_ADD_carry_and_sum [of "0x80" "100" "(boot [0x80])\<lparr>a := 200, b := 100\<rparr>"]
  by (simp add: boot_def new_State_def copy_image_def)

subsection \<open>C7: opcodes without an instruction\<close>

text \<open>
  C7. On every opcode that has no instruction behind it (every opcode outside
  \<open>implemented_opcodes\<close>), \<open>Emulate\<close> prints the trace line, which carries the program
  counter in decimal and the opcode in hexadecimal, then the line \<open>Unimplemented: 0x..\<close>
  with the opcode again, and the process exits with status 1; the state is the one
  \<open>Emulate\<close> was called on. The text reports the two values: whenever it reads as the
  report of a program counter \<open>v\<close> and an opcode \<open>w\<close>, these are the program counter
  and the opcode of the state. The program counter is reported by the trace line that
  \<open>Emulate\<close> prints for every instruction; the message of \<open>unimplemented\<close> itself names
  the opcode only. By \<open>Emulate_implemented\<close> no opcode in the list ends with status 1.
\<close>

theorem C7_unimplemented_fault:
  assumes "memory st (pc st) \<notin> set implemented_opcodes"
  shows "Emulate st =
           (fmt_06d (pc st) @ '': 0x'' @ fmt_02x (memory st (pc st)) @ [newline] @
            ''Unimplemented: 0x'' @ fmt_02x (memory st (pc st)) @ [newline],
            Exited 1 st) \<and>
         (fst (Emulate st) =
            fmt_06d v @ '': 0x'' @ fmt_02x w @ [newline] @
            ''Unimplemented: 0x'' @ fmt_02x w @ [newline]
          \<longrightarrow> v = pc st \<and> w = memory st (pc st))"
proof
  show e: "Emulate st =
           (fmt_06d (pc st) @ '': 0x'' @ fmt_02x (memory st (pc st)) @ [newline] @
            ''Unimplemented: 0x'' @ fmt_02x (memory st (pc st)) @ [newline],
            Exited 1 st)"
    using assms by (rule Emulate_fault)
  show "fst (Emulate st) =
            fmt_06d v @ '': 0x'' @ fmt_02x w @ [newline] @
            ''Unimplemented: 0x'' @ fmt_02x w @ [newline]
          \<longrightarrow> v = pc st \<and> w = memory st (pc st)"
  proof
    assume "fst (Emulate st) =
            fmt_06d v @ '': 0x'' @ fmt_02x w @ [newline] @
            ''Unimplemented: 0x'' @ fmt_02x w @ [newline]"
    with e have "fmt_06d v @ '': 0x'' @ fmt_02x w @ [newline] @
                   ''Unimplemented: 0x'' @ fmt_02x w @ [newline]
               = fmt_06d (pc st) @ '': 0x'' @ fmt_02x (memory st (pc st)) @ [newline] @
                   ''Unimplemented: 0x'' @ fmt_02x (memory st (pc st)) @ [newline]"
      by simp
    then show "v = pc st \<and> w = memory st (pc st)"
      by (rule fault_text_inj)
  qed
qed

theorem C7_unimplemented_fault_witness:
  "(0xd3 :: byte) \<notin> set implemented_opcodes \<and>
   Emulate (new_State\<lparr>pc := 0x1234, memory := (memory new_State)(0x1234 := 0xd3)\<rparr>) =
     (''004660: 0xd3'' @ [newline] @ ''Unimplemented: 0xd3'' @ [newline],
      Exited 1 (new_State\<lparr>pc := 0x1234, memory := (memory new_State)(0x1234 := 0xd3)\<rparr>)) \<and>
   fst (Emulate (new_State\<lparr>pc := 0x1234, memory := (memory new_State)(0x1234 := 0xd3)\<rparr>)) =
     fmt_06d 0x1234 @ '': 0x'' @ fmt_02x 0xd3 @ [newline] @
     ''Unimplemented: 0x'' @ fmt_02x 0xd3 @ [newline] \<and>
   pc (new_State\<lparr>pc := 0x1234, memory := (memory new_State)(0x1234 := 0xd3)\<rparr>) = 0x1234 \<and>
   memory (new_State\<lparr>pc := 0x1234, memory := (memory new_State)(0x1234 := 0xd3)\<rparr>) 0x1234 = 0xd3"
proof -
  define st where "st = new_State\<lparr>pc := 0x1234, memory := (memory new_State)(0x1234 := 0xd3)\<rparr>"
  have op: "memory st (pc st) = 0xd3" and pc1: "pc st = 0x1234"
    by (simp_all add: st_def new_State_def)
  have out: "(0xd3 :: byte) \<notin> set implemented_opcodes"
    by (simp add: implemented_opcodes_def)
  from C7_unimplemented_fault [of st "0x1234" "0xd3"] op out pc1
  have "Emulate st =
          (fmt_06d 0x1234 @ '': 0x'' @ fmt_02x 0xd3 @ [newline] @
           ''Unimplemented: 0x'' @ fmt_02x 0xd3 @ [newline], Exited 1 st)"
    by simp
  with out op pc1 show ?thesis
    unfolding st_def [symmetric] by (simp add: fmt_examples)
qed

subsection \<open>C8: PUSH followed by POP\<close>

text \<open>
  C8. For each of the register pairs B/C, D/E and H/L: when \<open>PUSH\<close> of the pair returns
  to the driver loop and the next opcode that loop fetches is \<open>POP\<close> of the same pair,
  that \<open>POP\<close> returns too, and after it the 16-bit value of the pair and the stack pointer
  are what they were before the \<open>PUSH\<close>. This holds wherever the stack pointer is,
  also when it wraps around the end of memory.
\<close>

theorem C8_PUSH_POP_roundtrip:
  assumes "(push_op, pop_op, getPair) \<in>
             set [(0xc5, 0xc1, getBC), (0xd5, 0xd1, getDE), (0xe5, 0xe1, getHL)]"
    and "memory st (pc st) = push_op"
    and "snd (Emulate st) = Running st1"
    and "memory st1 (pc st1) = pop_op"
  shows "\<exists>st2. snd (Emulate st1) = Running st2 \<and> getPair st2 = getPair st \<and> sp st2 = sp st"
proof -
  have up: "x - 2 + 1 = x - 1" and ne: "x - 1 \<noteq> x - 2" for x :: uint16
    by simp_all
  from assms(1) consider
      (BC) "push_op = 0xc5" "pop_op = 0xc1" "getPair = getBC"
    | (DE) "push_op = 0xd5" "pop_op = 0xd1" "getPair = getDE"
    | (HL) "push_op = 0xe5" "pop_op = 0xe1" "getPair = getHL"
    by auto
  then show ?thesis
  proof cases
    case BC
    with assms(2,3) Emulate_PUSH [of "0xc5" "b st" "c st" st]
    have st1: "st1 = (push (b st) (c st) st)\<lparr>pc := pc st + 1\<rparr>"
      by simp
    from assms(4) BC have "snd (Emulate st1) =
        Running (st1\<lparr>sp := sp st1 + 2, b := memory st1 (sp st1 + 1), c := memory st1 (sp st1),
                     pc := pc st1 + 1\<rparr>)"
      by (simp add: Emulate_POP_B)
    then show ?thesis
      by (simp add: BC st1 push_def Let_def getBC_def up ne)
  next
    case DE
    with assms(2,3) Emulate_PUSH [of "0xd5" "d st" "e st" st]
    have st1: "st1 = (push (d st) (e st) st)\<lparr>pc := pc st + 1\<rparr>"
      by simp
    from assms(4) DE have "snd (Emulate st1) =
        Running (st1\<lparr>sp := sp st1 + 2, d := memory st1 (sp st1 + 1), e := memory st1 (sp st1),
                     pc := pc st1 + 1\<rparr>)"
      by (simp add: Emulate_POP_D)
    then show ?thesis
      by (simp add: DE st1 push_def Let_def getDE_def up ne)
  next
    case HL
    with assms(2,3) Emulate_PUSH [of "0xe5" "h st" "l st" st]
    have st1: "st1 = (push (h st) (l st) st)\<lparr>pc := pc st + 1\<rparr>"
      by simp
    from assms(4) HL have "snd (Emulate st1) =
        Running (st1\<lparr>sp := sp st1 + 2, h := memory st1 (sp st1 + 1), l := memory st1 (sp st1),
                     pc := pc st1 + 1\<rparr>)"
      by (simp add: Emulate_POP_H)
    then show ?thesis
      by (simp add: HL st1 push_def Let_def getHL_def up ne)
  qed
qed

theorem C8_PUSH_POP_roundtrip_witness:
  "\<exists>st2. snd (Emulate ((push 0x12 0x34 ((boot [0xc5, 0xc1])\<lparr>b := 0x12, c := 0x34\<rparr>))\<lparr>pc := 1\<rparr>))
            = Running st2 \<and>
         getBC st2 = 0x1234 \<and> sp st2 = 0"
proof -
  define st where "st = (boot [0xc5, 0xc1])\<lparr>b := 0x12, c := 0x34\<rparr>"
  define st1 where "st1 = (push 0x12 0x34 st)\<lparr>pc := 1\<rparr>"
  have op: "memory st (pc st) = 0xc5"
    by (simp add: st_def boot_def new_State_def copy_image_def)
  have s1: "snd (Emulate st) = Running st1"
    using Emulate_PUSH [of "0xc5" "b st" "c st" st] op
    by (simp add: st_def st1_def boot_def new_State_def)
  have op1: "memory st1 (pc st1) = 0xc1"
    by (simp add: st1_def st_def push_def Let_def boot_def new_State_def copy_image_def)
  have pair: "getBC st = 0x1234" and sp0: "sp st = 0"
    by (simp_all add: st_def getBC_def boot_def new_State_def)
  from C8_PUSH_POP_roundtrip [of "0xc5" "0xc1" getBC st st1] op s1 op1 pair sp0
  show ?thesis
    by (simp add: st1_def st_def)
qed

subsection \<open>C9: the flag byte of PUSH PSW\<close>

text \<open>
  C9 says that in the flag byte bit 1 is always 1 and bits 3 and 5 are always 0. On the
  code they are the fields \<open>pad1\<close>, \<open>pad2\<close> and \<open>pad3\<close> of \<open>Conditions\<close>, packed
  like the five flags: all false at startup, so the image \<open>[0xf5]\<close> pushes a byte whose
  bit 1 is 0; and loaded by \<open>POP PSW\<close> from whatever byte is on the stack, so the image
  \<open>LXI SP,0x0005; POP PSW; PUSH PSW\<close> with 0xFF at address 5 pushes a byte whose bits
  3 and 5 are 1.
\<close>

theorem C9_reserved_bits_counterexample:
  "\<not> bit (memory (state_of (snd (Emulate (boot [0xf5]))))
            (sp (state_of (snd (Emulate (boot [0xf5])))))) 1 \<and>
   bit (memory (state_of (snd (run 3 (boot [0x31, 0x05, 0x00, 0xf1, 0xf5, 0xFF, 0x00]))))
         (sp (state_of (snd (run 3 (boot [0x31, 0x05, 0x00, 0xf1, 0xf5, 0xFF, 0x00])))))) 3 \<and>
   bit (memory (state_of (snd (run 3 (boot [0x31, 0x05, 0x00, 0xf1, 0xf5, 0xFF, 0x00]))))
         (sp (state_of (snd (run 3 (boot [0x31, 0x05, 0x00, 0xf1, 0xf5, 0xFF, 0x00])))))) 5"
proof -
  have zero: "snd (Emulate (boot [0xf5])) =
                Running ((boot [0xf5])\<lparr>memory := (memory (boot [0xf5]))(- 1 := 0, - 2 := 0),
                                     sp := - 2, pc := 1\<rparr>)"
    by (simp add: Emulate_PUSH_PSW boot_def new_State_def copy_image_def push_def Let_def
          cond_fields_def)
  define img :: "byte list" where "img = [0x31, 0x05, 0x00, 0xf1, 0xf5, 0xFF, 0x00]"
  define st1 where "st1 = (boot img)\<lparr>sp := 5, pc := 3\<rparr>"
  define st2 where "st2 = st1\<lparr>sp := 7, a := 0,
      cond := \<lparr>cy = True, pad1 = True, p = True, pad2 = True,
               ac = True, pad3 = True, z = True, s = True\<rparr>,
      pc := 4\<rparr>"
  define st3 where "st3 = st2\<lparr>memory := (memory st2)(6 := 0, 5 := 0xFF), sp := 5, pc := 5\<rparr>"
  have r1: "snd (run 1 (boot img)) = Running st1"
    by (simp add: st1_def img_def snd_run_0 snd_run_Suc Emulate_LXI_SP getAddr_def
          boot_def new_State_def copy_image_def)
  have op1: "memory st1 (pc st1) = 0xf1"
    by (simp add: st1_def img_def boot_def new_State_def copy_image_def)
  have "snd (Emulate st1) = Running st2"
    using Emulate_POP_PSW [OF op1]
    by (simp add: st1_def st2_def img_def boot_def new_State_def copy_image_def)
  with snd_run_Suc_end [OF r1] have r2: "snd (run 2 (boot img)) = Running st2"
    by (simp add: numeral_2_eq_2)
  have op2: "memory st2 (pc st2) = 0xf5"
    by (simp add: st2_def st1_def img_def boot_def new_State_def copy_image_def)
  have "snd (Emulate st2) = Running st3"
    using Emulate_PUSH_PSW [OF op2]
    by (simp add: st3_def st2_def push_def Let_def cond_fields_def)
  with snd_run_Suc_end [OF r2] have r3: "snd (run 3 (boot img)) = Running st3"
    by (simp add: numeral_3_eq_3 numeral_2_eq_2)
  have top: "memory st3 (sp st3) = 0xFF"
    by (simp add: st3_def)
  show ?thesis
    using zero r3 top by (simp add: state_of_def img_def)
qed

text \<open>
  C9 as it holds: \<open>PUSH PSW\<close> lowers the stack pointer by 2 and leaves at the new stack
  pointer a byte whose bits 0, 2, 4, 6 and 7 are the flags CY, P, AC, Z and S, and whose
  bits 1, 3 and 5 are the fields \<open>pad1\<close>, \<open>pad2\<close> and \<open>pad3\<close> of the state.
\<close>

theorem C9_PUSH_PSW_layout:
  assumes "memory st (pc st) = 0xf5"
  shows "\<exists>out st'. Emulate st = (out, Running st') \<and> sp st' = sp st - 2 \<and>
           bit (memory st' (sp st')) 0 = cy (cond st) \<and>
           bit (memory st' (sp st')) 1 = pad1 (cond st) \<and>
           bit (memory st' (sp st')) 2 = p (cond st) \<and>
           bit (memory st' (sp st')) 3 = pad2 (cond st) \<and>
           bit (memory st' (sp st')) 4 = ac (cond st) \<and>
           bit (memory st' (sp st')) 5 = pad3 (cond st) \<and>
           bit (memory st' (sp st')) 6 = z (cond st) \<and>
           bit (memory st' (sp st')) 7 = s (cond st)"
proof -
  have bits: "n < 8 \<Longrightarrow> bit (psw_loop (cond_fields (cond st)) 0 0x01) n = cond_fields (cond st) ! n" for n
    using psw_loop_bit [of n "cond_fields (cond st)" 0 0] by (simp add: cond_fields_def)
  obtain out r where e: "Emulate st = (out, r)"
    by (cases "Emulate st")
  with Emulate_PUSH_PSW [OF assms]
  have "Emulate st = (out, Running ((push (a st) (psw_loop (cond_fields (cond st)) 0 0x01) st)\<lparr>pc := pc st + 1\<rparr>))"
    by simp
  then show ?thesis
    by (simp add: push_def Let_def bits) (simp add: cond_fields_def)
qed

theorem C9_PUSH_PSW_layout_witness:
  "\<exists>out st'. Emulate ((boot [0xf5])\<lparr>sp := 0x2400, cond := (cond (boot [0xf5]))\<lparr>cy := True, pad3 := True\<rparr>\<rparr>)
                 = (out, Running st') \<and> sp st' = 0x23fe \<and>
      bit (memory st' (sp st')) 0 \<and> \<not> bit (memory st' (sp st')) 1 \<and>
      \<not> bit (memory st' (sp st')) 2 \<and> \<not> bit (memory st' (sp st')) 3 \<and>
      \<not> bit (memory st' (sp st')) 4 \<and> bit (memory st' (sp st')) 5 \<and>
      \<not> bit (memory st' (sp st')) 6 \<and> \<not> bit (memory st' (sp st')) 7"
  using C9_PUSH_PSW_layout
          [of "(boot [0xf5])\<lparr>sp := 0x2400, cond := (cond (boot [0xf5]))\<lparr>cy := True, pad3 := True\<rparr>\<rparr>"]
  by (simp add: boot_def new_State_def copy_image_def)

subsection \<open>C10: the interrupt-enable byte\<close>

text \<open>
  C10. In every state the driver loop reaches from startup on any image, the
  interrupt-enable byte is 0: startup zeroes it and no instruction assigns it. And in
  every such state the two interrupt-enable opcodes, 0xf3 (\<open>DI\<close>) and 0xfb (\<open>EI\<close>), end
  the process with status 1 in the state they found.
\<close>

theorem C10_enable_stays_zero:
  assumes "reachable img st"
  shows "enable st = 0 \<and>
         (memory st (pc st) \<in> {0xf3, 0xfb} \<longrightarrow> snd (Emulate st) = Exited 1 st)"
proof
  from assms show "enable st = 0"
  proof (induction rule: reachable.induct)
    case (reachable_start st)
    then show ?case
      by (auto simp add: startup_def boot_def new_State_def split: if_splits)
  next
    case (reachable_step st out st')
    show ?case
    proof (cases "memory st (pc st) \<in> set implemented_opcodes")
      case True
      from Emulate_implemented [OF True] reachable_step.hyps(2) reachable_step.IH
      show ?thesis by simp
    next
      case False
      from Emulate_fault [OF False] reachable_step.hyps(2)
      show ?thesis by simp
    qed
  qed
next
  show "memory st (pc st) \<in> {0xf3, 0xfb} \<longrightarrow> snd (Emulate st) = Exited 1 st"
  proof
    assume "memory st (pc st) \<in> {0xf3, 0xfb}"
    then have "memory st (pc st) \<notin> set implemented_opcodes"
      by (auto simp add: implemented_opcodes_def)
    from Emulate_fault [OF this] show "snd (Emulate st) = Exited 1 st"
      by simp
  qed
qed

theorem C10_enable_stays_zero_witness:
  "reachable [0x00, 0xfb] ((boot [0x00, 0xfb])\<lparr>pc := 1\<rparr>) \<and>
   enable ((boot [0x00, 0xfb])\<lparr>pc := 1\<rparr>) = 0 \<and>
   memory ((boot [0x00, 0xfb])\<lparr>pc := 1\<rparr>) (pc ((boot [0x00, 0xfb])\<lparr>pc := 1\<rparr>)) = 0xfb \<and>
   snd (Emulate ((boot [0x00, 0xfb])\<lparr>pc := 1\<rparr>)) = Exited 1 ((boot [0x00, 0xfb])\<lparr>pc := 1\<rparr>)"
proof -
  have start: "reachable [0x00, 0xfb] (boot [0x00, 0xfb])"
    by (rule reachable_start) (simp add: startup_def)
  have op: "memory (boot [0x00, 0xfb]) (pc (boot [0x00, 0xfb])) = 0x00"
    by (simp add: boot_def new_State_def copy_image_def)
  obtain out where "Emulate (boot [0x00, 0xfb]) = (out, Running ((boot [0x00, 0xfb])\<lparr>pc := 1\<rparr>))"
    using Emulate_NOP [OF op] by (cases "Emulate (boot [0x00, 0xfb])") (simp add: boot_def new_State_def)
  from reachable_step [OF start this]
  have r: "reachable [0x00, 0xfb] ((boot [0x00, 0xfb])\<lparr>pc := 1\<rparr>)" .
  have op1: "memory ((boot [0x00, 0xfb])\<lparr>pc := 1\<rparr>) (pc ((boot [0x00, 0xfb])\<lparr>pc := 1\<rparr>)) = 0xfb"
    by (simp add: boot_def new_State_def copy_image_def)
  from C10_enable_stays_zero [OF r] r op1 show ?thesis
    by simp
qed

end
